theory Spec2Isabelle
  imports Complex_Main
begin

section \<open>Tensors\<close>

text \<open>
  The cell of \<^verbatim>\<open>img_optim/conv_lstm_cell.py\<close> computes on torch tensors. A tensor
  is modelled by the device it lives on, its shape, and its elements as a function of the
  multi-index. Only the indices inside the shape are meaningful.

  Elements are real numbers: the rounding of 32-bit floats, infinities and NaN are outside
  this development. So is the computation of gradients; of it, only the flag
  \<^verbatim>\<open>requires_grad\<close> of each parameter the constructor registers is kept, which says
  whether training updates the parameter, and which \<^verbatim>\<open>forward\<close> never reads.

  The errors are those torch raises for operands on different devices, for shapes that do
  not fit, and for a CUDA device that is not there; Python's \<^verbatim>\<open>AttributeError\<close>; and
  \<open>Dangling\<close>, for a reference that is not in the store, which no Python program can hold.
\<close>

datatype device = CPU | CUDA

datatype error =
    DeviceMismatch
  | ShapeMismatch
  | CudaUnavailable
  | AttributeError
  | Dangling

record tensor =
  dev :: device
  shape :: "nat list"
  elem :: "nat list \<Rightarrow> real"

subsection \<open>Broadcasting\<close>

text \<open>
  Shapes are aligned at their last dimension; two sizes are compatible when they are
  equal or one of them is 1; the missing leading dimensions of the shorter shape are
  taken from the longer one.
\<close>

fun bshape_rev :: "nat list \<Rightarrow> nat list \<Rightarrow> nat list option" where
  "bshape_rev [] ys = Some ys"
| "bshape_rev (x # xs) [] = Some (x # xs)"
| "bshape_rev (x # xs) (y # ys) =
     (if x = y then map_option (Cons x) (bshape_rev xs ys)
      else if y = 1 then map_option (Cons x) (bshape_rev xs ys)
      else if x = 1 then map_option (Cons y) (bshape_rev xs ys)
      else None)"

definition bshape :: "nat list \<Rightarrow> nat list \<Rightarrow> nat list option" where
  "bshape a b = map_option rev (bshape_rev (rev a) (rev b))"

text \<open>
  The index at which an operand of shape \<open>s\<close> is read for the result index \<open>idx\<close>:
  the leading positions the operand does not have are dropped, and a dimension of size 1
  is always read at 0.
\<close>

definition bidx :: "nat list \<Rightarrow> nat list \<Rightarrow> nat list" where
  "bidx s idx = map2 (\<lambda>d i. if d = 1 then 0 else i) s (drop (length idx - length s) idx)"

text \<open>
  Binary operations need both operands on one device; a 0-dimensional CPU tensor may be
  combined with a tensor of another device, any other mix is an error.
\<close>

definition common_device :: "tensor \<Rightarrow> tensor \<Rightarrow> device option" where
  "common_device x y =
     (if dev x = dev y then Some (dev x)
      else if dev x = CPU \<and> shape x = [] then Some (dev y)
      else if dev y = CPU \<and> shape y = [] then Some (dev x)
      else None)"

definition t_binop :: "(real \<Rightarrow> real \<Rightarrow> real) \<Rightarrow> tensor \<Rightarrow> tensor \<Rightarrow> error + tensor" where
  "t_binop f x y =
     (case common_device x y of
        None \<Rightarrow> Inl DeviceMismatch
      | Some d \<Rightarrow>
          (case bshape (shape x) (shape y) of
             None \<Rightarrow> Inl ShapeMismatch
           | Some s \<Rightarrow>
               Inr \<lparr>dev = d, shape = s,
                    elem = (\<lambda>idx. f (elem x (bidx (shape x) idx)) (elem y (bidx (shape y) idx)))\<rparr>))"

definition t_map :: "(real \<Rightarrow> real) \<Rightarrow> tensor \<Rightarrow> tensor" where
  "t_map f x = \<lparr>dev = dev x, shape = shape x, elem = (\<lambda>idx. f (elem x idx))\<rparr>"

subsection \<open>Two-dimensional convolution\<close>

text \<open>
  \<^verbatim>\<open>nn.Conv2d(cin, cout, kernel_size, 1, padding, bias=...)\<close>: stride 1, zero padding
  of \<open>(ph, pw)\<close> rows and columns on each side, no dilation, one group. The input is a
  batch \<open>(N, cin, H, W)\<close>, as the docstring of \<^verbatim>\<open>forward\<close> has it; the output has
  \<open>H + 2 * ph + 1 - kh\<close> rows and \<open>W + 2 * pw + 1 - kw\<close> columns, and a kernel larger than
  the padded input is an error. The element of the padded input at row \<open>r\<close> and column
  \<open>s\<close> (counted in the padded frame):
\<close>

definition padded :: "tensor \<Rightarrow> nat \<times> nat \<Rightarrow> nat \<Rightarrow> nat \<Rightarrow> nat \<Rightarrow> nat \<Rightarrow> real" where
  "padded x p n c r s =
     (case p of (ph, pw) \<Rightarrow>
        if ph \<le> r \<and> r - ph < shape x ! 2 \<and> pw \<le> s \<and> s - pw < shape x ! 3
        then elem x [n, c, r - ph, s - pw] else 0)"

definition conv2d_elem :: "tensor \<Rightarrow> tensor option \<Rightarrow> nat \<times> nat \<Rightarrow> tensor \<Rightarrow> nat list \<Rightarrow> real" where
  "conv2d_elem w b p x idx =
     (case idx of
        [n, co, i, j] \<Rightarrow>
          (case b of None \<Rightarrow> 0 | Some bt \<Rightarrow> elem bt [co]) +
          (\<Sum>c\<leftarrow>[0..<shape w ! 1]. \<Sum>u\<leftarrow>[0..<shape w ! 2]. \<Sum>v\<leftarrow>[0..<shape w ! 3].
              elem w [co, c, u, v] * padded x p n c (i + u) (j + v))
      | _ \<Rightarrow> 0)"

definition bias_fits :: "tensor option \<Rightarrow> nat \<Rightarrow> bool" where
  "bias_fits b co = (case b of None \<Rightarrow> True | Some bt \<Rightarrow> shape bt = [co])"

definition bias_dev_ok :: "tensor option \<Rightarrow> device \<Rightarrow> bool" where
  "bias_dev_ok b d = (case b of None \<Rightarrow> True | Some bt \<Rightarrow> dev bt = d)"

definition t_conv2d :: "tensor \<Rightarrow> tensor option \<Rightarrow> nat \<times> nat \<Rightarrow> tensor \<Rightarrow> error + tensor" where
  "t_conv2d w b p x =
     (case p of (ph, pw) \<Rightarrow>
       (case shape x of
          [N, ci, H, W] \<Rightarrow>
            (case shape w of
               [co, ci', kh, kw] \<Rightarrow>
                 if ci = ci' \<and> bias_fits b co \<and> kh \<le> H + 2 * ph \<and> kw \<le> W + 2 * pw
                 then (if dev w = dev x \<and> bias_dev_ok b (dev x)
                       then Inr \<lparr>dev = dev x,
                                 shape = [N, co, H + 2 * ph + 1 - kh, W + 2 * pw + 1 - kw],
                                 elem = conv2d_elem w b p x\<rparr>
                       else Inl DeviceMismatch)
                 else Inl ShapeMismatch
             | _ \<Rightarrow> Inl ShapeMismatch)
        | _ \<Rightarrow> Inl ShapeMismatch))"

section \<open>The store of tensors\<close>

text \<open>
  Python variables and module attributes hold references to tensors. The store is the
  list of all tensors created so far, a reference is a position in it. Every torch
  operation the cell uses is out of place: it reads its operands and creates a new tensor.
  A computation takes the store and returns an error or its result with the new store.
\<close>

type_synonym ref = nat
type_synonym store = "tensor list"
type_synonym 'a M = "store \<Rightarrow> error + ('a \<times> store)"

definition returnS :: "'a \<Rightarrow> 'a M" where
  "returnS a st = Inr (a, st)"

definition raise :: "error \<Rightarrow> 'a M" where
  "raise e st = Inl e"

definition bindS :: "'a M \<Rightarrow> ('a \<Rightarrow> 'b M) \<Rightarrow> 'b M" where
  "bindS m f st = (case m st of Inl e \<Rightarrow> Inl e | Inr (a, st') \<Rightarrow> f a st')"

definition load :: "ref \<Rightarrow> tensor M" where
  "load r st = (if r < length st then Inr (st ! r, st) else Inl Dangling)"

definition alloc :: "tensor \<Rightarrow> ref M" where
  "alloc t st = Inr (length st, st @ [t])"

definition liftE :: "error + 'a \<Rightarrow> 'a M" where
  "liftE r st = (case r of Inl e \<Rightarrow> Inl e | Inr a \<Rightarrow> Inr (a, st))"

subsection \<open>The torch operations the cell calls\<close>

text \<open>
  The environment: whether a CUDA device is present, and the device on which a tensor is
  created when none is given (the CPU unless the program changed the default).
\<close>

record env =
  cuda_available :: bool
  default_device :: device

definition new_tensor :: "env \<Rightarrow> device \<Rightarrow> nat list \<Rightarrow> (nat list \<Rightarrow> real) \<Rightarrow> ref M" where
  "new_tensor e d s g =
     (if d = CUDA \<and> \<not> cuda_available e then raise CudaUnavailable
      else alloc \<lparr>dev = d, shape = s, elem = g\<rparr>)"

definition torch_tensor :: "env \<Rightarrow> real \<Rightarrow> ref M" where
  "torch_tensor e v = new_tensor e (default_device e) [] (\<lambda>_. v)"

definition torch_zeros :: "env \<Rightarrow> nat list \<Rightarrow> device \<Rightarrow> ref M" where
  "torch_zeros e s d = new_tensor e d s (\<lambda>_. 0)"

definition torch_ones :: "env \<Rightarrow> nat list \<Rightarrow> ref M" where
  "torch_ones e s = new_tensor e (default_device e) s (\<lambda>_. 1)"

text \<open>\<^verbatim>\<open>t.cuda()\<close>: the tensor itself when it is on the CUDA device already, a copy there otherwise.\<close>

definition tensor_cuda :: "env \<Rightarrow> ref \<Rightarrow> ref M" where
  "tensor_cuda e r =
     bindS (load r) (\<lambda>x.
       if \<not> cuda_available e then raise CudaUnavailable
       else if dev x = CUDA then returnS r
       else alloc (x\<lparr>dev := CUDA\<rparr>))"

definition torch_binop :: "(real \<Rightarrow> real \<Rightarrow> real) \<Rightarrow> ref \<Rightarrow> ref \<Rightarrow> ref M" where
  "torch_binop f a b =
     bindS (load a) (\<lambda>x. bindS (load b) (\<lambda>y. bindS (liftE (t_binop f x y)) alloc))"

definition torch_add :: "ref \<Rightarrow> ref \<Rightarrow> ref M" where
  "torch_add = torch_binop (+)"

definition torch_sub :: "ref \<Rightarrow> ref \<Rightarrow> ref M" where
  "torch_sub = torch_binop (-)"

definition torch_mul :: "ref \<Rightarrow> ref \<Rightarrow> ref M" where
  "torch_mul = torch_binop (*)"

definition torch_min :: "ref \<Rightarrow> ref \<Rightarrow> ref M" where
  "torch_min = torch_binop min"

definition torch_max :: "ref \<Rightarrow> ref \<Rightarrow> ref M" where
  "torch_max = torch_binop max"

text \<open>A tensor combined with a Python number, and the elementwise hyperbolic tangent.\<close>

definition torch_map :: "(real \<Rightarrow> real) \<Rightarrow> ref \<Rightarrow> ref M" where
  "torch_map f a = bindS (load a) (\<lambda>x. alloc (t_map f x))"

definition mul_scalar :: "ref \<Rightarrow> real \<Rightarrow> ref M" where
  "mul_scalar a k = torch_map (\<lambda>v. v * k) a"

definition add_scalar :: "ref \<Rightarrow> real \<Rightarrow> ref M" where
  "add_scalar a k = torch_map (\<lambda>v. v + k) a"

definition torch_tanh :: "ref \<Rightarrow> ref M" where
  "torch_tanh a = torch_map tanh a"

text \<open>A convolution module holds references to its weight and (optional) bias.\<close>

record conv2d =
  weight :: ref
  bias :: "ref option"
  pad :: "nat \<times> nat"

definition load_opt :: "ref option \<Rightarrow> tensor option M" where
  "load_opt r = (case r of None \<Rightarrow> returnS None | Some b \<Rightarrow> bindS (load b) (\<lambda>t. returnS (Some t)))"

definition conv2d_call :: "conv2d \<Rightarrow> ref \<Rightarrow> ref M" where
  "conv2d_call cv a =
     bindS (load (weight cv)) (\<lambda>w. bindS (load_opt (bias cv)) (\<lambda>b. bindS (load a) (\<lambda>x.
       bindS (liftE (t_conv2d w b (pad cv) x)) alloc)))"

text \<open>
  \<^verbatim>\<open>nn.Conv2d(cin, cout, kernel_size, 1, padding, bias=has_bias)\<close> creates the weight of
  shape \<open>(cout, cin, kh, kw)\<close> and, when asked, the bias of shape \<open>(cout)\<close>, on
  the default device. Their initial values are random in torch; here they are the
  argument \<open>init\<close>.
\<close>

definition new_Conv2d ::
  "env \<Rightarrow> nat \<Rightarrow> nat \<Rightarrow> nat \<times> nat \<Rightarrow> nat \<times> nat \<Rightarrow> bool \<Rightarrow>
   (nat list \<Rightarrow> real) \<times> (nat list \<Rightarrow> real) \<Rightarrow> conv2d M" where
  "new_Conv2d e cin cout ks p has_bias init =
     bindS (new_tensor e (default_device e) [cout, cin, fst ks, snd ks] (fst init)) (\<lambda>w.
       if has_bias
       then bindS (new_tensor e (default_device e) [cout] (snd init)) (\<lambda>b.
              returnS \<lparr>weight = w, bias = Some b, pad = p\<rparr>)
       else returnS \<lparr>weight = w, bias = None, pad = p\<rparr>)"

section \<open>The cell\<close>

subsection \<open>\<^verbatim>\<open>hard_sigmoid\<close>\<close>

text \<open>
  The source creates the two bounds with \<^verbatim>\<open>torch.tensor(0.0).cuda()\<close> and
  \<^verbatim>\<open>torch.tensor(1.0).cuda()\<close>, then returns
  \<^verbatim>\<open>torch.max(torch.min(input*0.2 + 0.5, upper), lower)\<close>.
\<close>

definition hard_sigmoid :: "env \<Rightarrow> ref \<Rightarrow> ref M" where
  "hard_sigmoid e input =
     bindS (torch_tensor e 0) (\<lambda>l0.
     bindS (tensor_cuda e l0) (\<lambda>lower.
     bindS (torch_tensor e 1) (\<lambda>u0.
     bindS (tensor_cuda e u0) (\<lambda>upper.
     bindS (mul_scalar input 0.2) (\<lambda>a.
     bindS (add_scalar a 0.5) (\<lambda>b.
     bindS (torch_min b upper) (\<lambda>m.
     torch_max m lower)))))))"

text \<open>The function of one element that the spec calls the bounded sigmoid.\<close>

definition clamp :: "real \<Rightarrow> real \<Rightarrow> real \<Rightarrow> real" where
  "clamp v lo hi = (if v < lo then lo else if hi < v then hi else v)"

definition boundedSigmoid :: "real \<Rightarrow> real" where
  "boundedSigmoid x = clamp (x * 0.2 + 0.5) 0 1"

subsection \<open>\<^verbatim>\<open>ConvLSTMCell.__init__\<close>\<close>

text \<open>
  The attributes of the module. The convolutions and the parameters are set by name
  (\<^verbatim>\<open>__setattr__\<close>, \<^verbatim>\<open>register_parameter\<close>), so they are kept in
  dictionaries from the attribute name: the convolutions, the tensors of the registered
  parameters, and the flag \<^verbatim>\<open>requires_grad\<close> of each registered parameter.
\<close>

record ConvLSTMCell =
  gating_mode :: string
  peephole :: bool
  tied_bias :: bool
  input_size :: "nat \<times> nat"
  input_dim :: nat
  hidden_dim :: nat
  kernel_size :: "nat \<times> nat"
  padding :: "nat \<times> nat"
  kern_names :: "string list"
  peep_names :: "string list"
  tied_bias_names :: "string list"
  modules :: "string \<rightharpoonup> conv2d"
  params :: "string \<rightharpoonup> ref"
  requires_grad :: "string \<rightharpoonup> bool"

type_synonym kernel_init = "string \<Rightarrow> (nat list \<Rightarrow> real) \<times> (nat list \<Rightarrow> real)"

text \<open>
  \<^verbatim>\<open>Parameter(data, requires_grad=True)\<close>: the parameter shares the data of the tensor
  and takes its flag from its own second argument, which is \<^verbatim>\<open>True\<close> when the caller
  does not pass it; the flag of the tensor \<open>data\<close> is not looked at.
\<close>

definition Parameter_requires_grad :: "bool \<Rightarrow> bool option \<Rightarrow> bool" where
  "Parameter_requires_grad data_requires_grad arg = (case arg of None \<Rightarrow> True | Some r \<Rightarrow> r)"

text \<open>
  The three loops of the constructor, over the lists of names. In the second and third the
  source writes \<^verbatim>\<open>Parameter(torch.ones(..., requires_grad=self.peephole))\<close> and
  \<^verbatim>\<open>Parameter(torch.zeros(..., requires_grad=self.tied_bias))\<close>: the flag goes to the
  tensor, and \<^verbatim>\<open>Parameter\<close> is called with the tensor alone.
\<close>

fun add_kernels :: "env \<Rightarrow> kernel_init \<Rightarrow> string list \<Rightarrow> ConvLSTMCell \<Rightarrow> ConvLSTMCell M" where
  "add_kernels e init [] self = returnS self"
| "add_kernels e init (kern_n # rest) self =
     (if CHR ''x'' \<in> set kern_n
      then bindS (new_Conv2d e (input_dim self) (hidden_dim self) (kernel_size self)
                    (padding self) (\<not> tied_bias self) (init kern_n)) (\<lambda>cv.
             add_kernels e init rest (self\<lparr>modules := (modules self)(kern_n \<mapsto> cv)\<rparr>))
      else bindS (new_Conv2d e (hidden_dim self) (hidden_dim self) (kernel_size self)
                    (padding self) (\<not> tied_bias self) (init kern_n)) (\<lambda>cv.
             add_kernels e init rest (self\<lparr>modules := (modules self)(kern_n \<mapsto> cv)\<rparr>)))"

fun add_peepholes :: "env \<Rightarrow> string list \<Rightarrow> ConvLSTMCell \<Rightarrow> ConvLSTMCell M" where
  "add_peepholes e [] self = returnS self"
| "add_peepholes e (peep_n # rest) self =
     bindS (torch_ones e [hidden_dim self, fst (input_size self), snd (input_size self)]) (\<lambda>r.
       add_peepholes e rest
         (self\<lparr>params := (params self)(peep_n \<mapsto> r),
               requires_grad := (requires_grad self)
                 (peep_n \<mapsto> Parameter_requires_grad (peephole self) None)\<rparr>))"

fun add_tied_biases :: "env \<Rightarrow> string list \<Rightarrow> ConvLSTMCell \<Rightarrow> ConvLSTMCell M" where
  "add_tied_biases e [] self = returnS self"
| "add_tied_biases e (b # rest) self =
     bindS (torch_zeros e [hidden_dim self, 1, 1] (default_device e)) (\<lambda>r.
       add_tied_biases e rest
         (self\<lparr>params := (params self)(b \<mapsto> r),
               requires_grad := (requires_grad self)
                 (b \<mapsto> Parameter_requires_grad (tied_bias self) None)\<rparr>))"

definition ConvLSTMCell_init ::
  "env \<Rightarrow> kernel_init \<Rightarrow> nat \<times> nat \<Rightarrow> nat \<Rightarrow> nat \<Rightarrow> nat \<times> nat \<Rightarrow> string \<Rightarrow> bool \<Rightarrow> bool
     \<Rightarrow> ConvLSTMCell M" where
  "ConvLSTMCell_init e init input_size' input_dim' hidden_dim' kernel_size' gating_mode'
       peephole' tied_bias' =
     (let self = \<lparr>gating_mode = gating_mode', peephole = peephole', tied_bias = tied_bias',
                  input_size = input_size', input_dim = input_dim', hidden_dim = hidden_dim',
                  kernel_size = kernel_size',
                  padding = (fst kernel_size' div 2, snd kernel_size' div 2),
                  kern_names = [''Wxi'', ''Whi'', ''Wxf'', ''Whf'', ''Wxo'', ''Who'', ''Wxc'', ''Whc''],
                  peep_names = [''Wci'', ''Wcf'', ''Wco''],
                  tied_bias_names = [''bi'', ''bf'', ''bc'', ''bo''],
                  modules = Map.empty, params = Map.empty, requires_grad = Map.empty\<rparr>
      in bindS (add_kernels e init (kern_names self) self) (\<lambda>self.
         bindS (add_peepholes e (peep_names self) self) (\<lambda>self.
         add_tied_biases e (tied_bias_names self) self)))"

subsection \<open>\<^verbatim>\<open>ConvLSTMCell.forward\<close>\<close>

text \<open>
  \<^verbatim>\<open>self.Wxi(Xt)\<close> looks the module up by name and calls it; \<^verbatim>\<open>self.Wci\<close> looks
  the parameter up.
\<close>

definition call_module :: "ConvLSTMCell \<Rightarrow> string \<Rightarrow> ref \<Rightarrow> ref M" where
  "call_module self name x =
     (case modules self name of None \<Rightarrow> raise AttributeError | Some cv \<Rightarrow> conv2d_call cv x)"

definition get_param :: "ConvLSTMCell \<Rightarrow> string \<Rightarrow> ref M" where
  "get_param self name =
     (case params self name of None \<Rightarrow> raise AttributeError | Some r \<Rightarrow> returnS r)"

text \<open>
  Every operator of the source is one step, in Python's order of evaluation:
  \<^verbatim>\<open>A + B + C * D + E\<close> is \<^verbatim>\<open>((A + B) + (C * D)) + E\<close>.
\<close>

definition forward :: "env \<Rightarrow> ConvLSTMCell \<Rightarrow> ref \<Rightarrow> ref \<times> ref \<Rightarrow> (ref \<times> ref) M" where
  "forward e self input_tensor prev_state =
     (let Xt = input_tensor; Htm1 = fst prev_state; Ctm1 = snd prev_state in
      bindS (call_module self ''Wxi'' Xt) (\<lambda>i1.
      bindS (call_module self ''Whi'' Htm1) (\<lambda>i2.
      bindS (torch_add i1 i2) (\<lambda>i3.
      bindS (get_param self ''Wci'') (\<lambda>Wci.
      bindS (torch_mul Wci Ctm1) (\<lambda>i4.
      bindS (torch_add i3 i4) (\<lambda>i5.
      bindS (get_param self ''bi'') (\<lambda>bi.
      bindS (torch_add i5 bi) (\<lambda>i6.
      bindS (hard_sigmoid e i6) (\<lambda>i.
      bindS (call_module self ''Wxf'' Xt) (\<lambda>f1.
      bindS (call_module self ''Whf'' Htm1) (\<lambda>f2.
      bindS (torch_add f1 f2) (\<lambda>f3.
      bindS (get_param self ''Wcf'') (\<lambda>Wcf.
      bindS (torch_mul Wcf Ctm1) (\<lambda>f4.
      bindS (torch_add f3 f4) (\<lambda>f5.
      bindS (get_param self ''bf'') (\<lambda>bf.
      bindS (torch_add f5 bf) (\<lambda>f6.
      bindS (hard_sigmoid e f6) (\<lambda>f.
      (if gating_mode self = ''mul'' then
         bindS (call_module self ''Wxc'' Xt) (\<lambda>c1.
         bindS (call_module self ''Whc'' Htm1) (\<lambda>c2.
         bindS (torch_add c1 c2) (\<lambda>c3.
         bindS (get_param self ''bc'') (\<lambda>bc.
         bindS (torch_add c3 bc) (\<lambda>c4.
         bindS (torch_tanh c4) (\<lambda>Ct'.
         bindS (torch_mul f Ctm1) (\<lambda>m1.
         bindS (torch_mul i Ct') (\<lambda>m2.
         bindS (torch_add m1 m2) (\<lambda>Ct.
         bindS (call_module self ''Wxo'' Xt) (\<lambda>o1.
         bindS (call_module self ''Who'' Htm1) (\<lambda>o2.
         bindS (torch_add o1 o2) (\<lambda>o3.
         bindS (get_param self ''Wco'') (\<lambda>Wco.
         bindS (torch_mul Wco Ct) (\<lambda>o4.
         bindS (torch_add o3 o4) (\<lambda>o5.
         bindS (get_param self ''bo'') (\<lambda>bo.
         bindS (torch_add o5 bo) (\<lambda>o6.
         bindS (hard_sigmoid e o6) (\<lambda>o'.
         bindS (torch_tanh Ct) (\<lambda>th.
         bindS (torch_mul o' th) (\<lambda>Ht.
         returnS (Ht, Ct)))))))))))))))))))))
       else
         bindS (call_module self ''Wxc'' Xt) (\<lambda>c1.
         bindS (call_module self ''Whc'' Htm1) (\<lambda>c2.
         bindS (torch_add c1 c2) (\<lambda>c3.
         bindS (get_param self ''bc'') (\<lambda>bc.
         bindS (torch_add c3 bc) (\<lambda>c4.
         bindS (hard_sigmoid e c4) (\<lambda>Ct'.
         bindS (torch_mul f Ctm1) (\<lambda>m1.
         bindS (torch_add m1 Ct') (\<lambda>m2.
         bindS (torch_sub m2 i) (\<lambda>Ct.
         bindS (call_module self ''Wxo'' Xt) (\<lambda>o1.
         bindS (call_module self ''Who'' Htm1) (\<lambda>o2.
         bindS (torch_add o1 o2) (\<lambda>o3.
         bindS (get_param self ''Wco'') (\<lambda>Wco.
         bindS (torch_mul Wco Ct) (\<lambda>o4.
         bindS (torch_add o3 o4) (\<lambda>o5.
         bindS (get_param self ''bo'') (\<lambda>bo.
         bindS (torch_add o5 bo) (\<lambda>o6.
         bindS (hard_sigmoid e o6) (\<lambda>o'.
         bindS (hard_sigmoid e Ct) (\<lambda>hc.
         bindS (torch_sub hc o') (\<lambda>Ht.
         returnS (Ht, Ct)))))))))))))))))))))))))))))))))))))))))"

subsection \<open>\<^verbatim>\<open>ConvLSTMCell.init_hidden\<close>\<close>

text \<open>
  \<^verbatim>\<open>device_ = self.Wxi.weight.device\<close>, then two calls of \<^verbatim>\<open>torch.zeros\<close> with
  the shape \<^verbatim>\<open>(batch_size, self.hidden_dim, h, w)\<close> on that device.
\<close>

definition init_hidden :: "env \<Rightarrow> ConvLSTMCell \<Rightarrow> nat \<Rightarrow> (ref \<times> ref) M" where
  "init_hidden e self batch_size =
     (case modules self ''Wxi'' of
        None \<Rightarrow> raise AttributeError
      | Some Wxi \<Rightarrow>
          bindS (load (weight Wxi)) (\<lambda>wt.
            let device' = dev wt; h = fst (input_size self); w = snd (input_size self) in
            bindS (torch_zeros e [batch_size, hidden_dim self, h, w] device') (\<lambda>H.
            bindS (torch_zeros e [batch_size, hidden_dim self, h, w] device') (\<lambda>C.
            returnS (H, C)))))"

section \<open>Stating the properties\<close>

text \<open>
  Predicates on the store: the tensor at a reference has a given device and shape, and
  given elements inside its shape.
\<close>

definition has :: "store \<Rightarrow> ref \<Rightarrow> device \<Rightarrow> nat list \<Rightarrow> bool" where
  "has st r d s = (r < length st \<and> dev (st ! r) = d \<and> shape (st ! r) = s)"

definition is4 :: "store \<Rightarrow> ref \<Rightarrow> device \<Rightarrow> nat \<Rightarrow> nat \<Rightarrow> nat \<Rightarrow> nat \<Rightarrow> (nat \<Rightarrow> nat \<Rightarrow> nat \<Rightarrow> nat \<Rightarrow> real) \<Rightarrow> bool" where
  "is4 st r d N C h w g =
     (has st r d [N, C, h, w] \<and>
      (\<forall>n<N. \<forall>c<C. \<forall>y<h. \<forall>x<w. elem (st ! r) [n, c, y, x] = g n c y x))"

definition is3 :: "store \<Rightarrow> ref \<Rightarrow> device \<Rightarrow> nat \<Rightarrow> nat \<Rightarrow> nat \<Rightarrow> (nat \<Rightarrow> nat \<Rightarrow> nat \<Rightarrow> real) \<Rightarrow> bool" where
  "is3 st r d C h w g =
     (has st r d [C, h, w] \<and>
      (\<forall>c<C. \<forall>y<h. \<forall>x<w. elem (st ! r) [c, y, x] = g c y x))"

text \<open>
  The store only grows: the old store is what the new one starts with.
\<close>

definition grows :: "store \<Rightarrow> store \<Rightarrow> bool" where
  "grows st st' = (take (length st) st' = st)"

text \<open>
  The value of a convolution of the cell at one index of its output, and of a parameter at
  one index; what it takes for a convolution or a parameter of the cell to be in the store
  with the shape the constructor gives it.
\<close>

definition conv_at :: "store \<Rightarrow> ConvLSTMCell \<Rightarrow> string \<Rightarrow> ref \<Rightarrow> nat \<Rightarrow> nat \<Rightarrow> nat \<Rightarrow> nat \<Rightarrow> real" where
  "conv_at st self name X n c y x =
     (case modules self name of
        None \<Rightarrow> 0
      | Some m \<Rightarrow> conv2d_elem (st ! weight m) (map_option ((!) st) (bias m)) (pad m) (st ! X) [n, c, y, x])"

definition conv_ok :: "store \<Rightarrow> device \<Rightarrow> ConvLSTMCell \<Rightarrow> string \<Rightarrow> nat \<Rightarrow> nat \<Rightarrow> nat \<Rightarrow> nat \<Rightarrow> bool" where
  "conv_ok st d self name ci co kh kw =
     (case modules self name of
        None \<Rightarrow> False
      | Some m \<Rightarrow>
          has st (weight m) d [co, ci, kh, kw] \<and>
          (case bias m of None \<Rightarrow> True | Some b \<Rightarrow> has st b d [co]) \<and>
          pad m = (kh div 2, kw div 2))"

definition param_at :: "store \<Rightarrow> ConvLSTMCell \<Rightarrow> string \<Rightarrow> nat list \<Rightarrow> real" where
  "param_at st self name idx =
     (case params self name of None \<Rightarrow> 0 | Some r \<Rightarrow> elem (st ! r) idx)"

definition param_ok :: "store \<Rightarrow> device \<Rightarrow> ConvLSTMCell \<Rightarrow> string \<Rightarrow> nat list \<Rightarrow> bool" where
  "param_ok st d self name s =
     (case params self name of None \<Rightarrow> False | Some r \<Rightarrow> has st r d s)"

text \<open>What the constructor establishes, and what a caller has to pass.\<close>

definition cell_ok :: "store \<Rightarrow> device \<Rightarrow> ConvLSTMCell \<Rightarrow> bool" where
  "cell_ok st d self =
     (let ci = input_dim self; ch = hidden_dim self;
          kh = fst (kernel_size self); kw = snd (kernel_size self);
          h = fst (input_size self); w = snd (input_size self)
      in conv_ok st d self ''Wxi'' ci ch kh kw \<and> conv_ok st d self ''Whi'' ch ch kh kw \<and>
         conv_ok st d self ''Wxf'' ci ch kh kw \<and> conv_ok st d self ''Whf'' ch ch kh kw \<and>
         conv_ok st d self ''Wxo'' ci ch kh kw \<and> conv_ok st d self ''Who'' ch ch kh kw \<and>
         conv_ok st d self ''Wxc'' ci ch kh kw \<and> conv_ok st d self ''Whc'' ch ch kh kw \<and>
         param_ok st d self ''Wci'' [ch, h, w] \<and> param_ok st d self ''Wcf'' [ch, h, w] \<and>
         param_ok st d self ''Wco'' [ch, h, w] \<and>
         param_ok st d self ''bi'' [ch, 1, 1] \<and> param_ok st d self ''bf'' [ch, 1, 1] \<and>
         param_ok st d self ''bc'' [ch, 1, 1] \<and> param_ok st d self ''bo'' [ch, 1, 1])"

definition valid_config :: "ConvLSTMCell \<Rightarrow> bool" where
  "valid_config self =
     (odd (fst (kernel_size self)) \<and> odd (snd (kernel_size self)) \<and>
      0 < fst (input_size self) \<and> 0 < snd (input_size self))"

definition state_ok :: "store \<Rightarrow> device \<Rightarrow> ConvLSTMCell \<Rightarrow> nat \<Rightarrow> ref \<Rightarrow> ref \<Rightarrow> ref \<Rightarrow> bool" where
  "state_ok st d self N Xt Htm1 Ctm1 =
     (has st Xt d [N, input_dim self, fst (input_size self), snd (input_size self)] \<and>
      has st Htm1 d [N, hidden_dim self, fst (input_size self), snd (input_size self)] \<and>
      has st Ctm1 d [N, hidden_dim self, fst (input_size self), snd (input_size self)])"

text \<open>The sum under a gate's activation, as the spec writes it.\<close>

definition gate_sum ::
  "store \<Rightarrow> ConvLSTMCell \<Rightarrow> string \<Rightarrow> string \<Rightarrow> string \<Rightarrow> string \<Rightarrow> ref \<Rightarrow> ref \<Rightarrow>
   (nat \<Rightarrow> nat \<Rightarrow> nat \<Rightarrow> nat \<Rightarrow> real) \<Rightarrow> nat \<Rightarrow> nat \<Rightarrow> nat \<Rightarrow> nat \<Rightarrow> real" where
  "gate_sum st self kx kh wc b X H gC n c y x =
     conv_at st self kx X n c y x + conv_at st self kh H n c y x
       + param_at st self wc [c, y, x] * gC n c y x + param_at st self b [c, 0, 0]"

definition cand_sum ::
  "store \<Rightarrow> ConvLSTMCell \<Rightarrow> string \<Rightarrow> string \<Rightarrow> string \<Rightarrow> ref \<Rightarrow> ref \<Rightarrow>
   nat \<Rightarrow> nat \<Rightarrow> nat \<Rightarrow> nat \<Rightarrow> real" where
  "cand_sum st self kx kh b X H n c y x =
     conv_at st self kx X n c y x + conv_at st self kh H n c y x + param_at st self b [c, 0, 0]"

text \<open>The equations of the spec, element by element.\<close>

definition spec_i :: "store \<Rightarrow> ConvLSTMCell \<Rightarrow> ref \<Rightarrow> ref \<Rightarrow> ref \<Rightarrow> nat \<Rightarrow> nat \<Rightarrow> nat \<Rightarrow> nat \<Rightarrow> real" where
  "spec_i st self Xt Htm1 Ctm1 n c y x =
     boundedSigmoid (conv_at st self ''Wxi'' Xt n c y x + conv_at st self ''Whi'' Htm1 n c y x
        + param_at st self ''Wci'' [c, y, x] * elem (st ! Ctm1) [n, c, y, x]
        + param_at st self ''bi'' [c, 0, 0])"

definition spec_f :: "store \<Rightarrow> ConvLSTMCell \<Rightarrow> ref \<Rightarrow> ref \<Rightarrow> ref \<Rightarrow> nat \<Rightarrow> nat \<Rightarrow> nat \<Rightarrow> nat \<Rightarrow> real" where
  "spec_f st self Xt Htm1 Ctm1 n c y x =
     boundedSigmoid (conv_at st self ''Wxf'' Xt n c y x + conv_at st self ''Whf'' Htm1 n c y x
        + param_at st self ''Wcf'' [c, y, x] * elem (st ! Ctm1) [n, c, y, x]
        + param_at st self ''bf'' [c, 0, 0])"

definition spec_pre_c :: "store \<Rightarrow> ConvLSTMCell \<Rightarrow> ref \<Rightarrow> ref \<Rightarrow> nat \<Rightarrow> nat \<Rightarrow> nat \<Rightarrow> nat \<Rightarrow> real" where
  "spec_pre_c st self Xt Htm1 n c y x =
     conv_at st self ''Wxc'' Xt n c y x + conv_at st self ''Whc'' Htm1 n c y x
        + param_at st self ''bc'' [c, 0, 0]"

definition spec_o ::
  "store \<Rightarrow> ConvLSTMCell \<Rightarrow> ref \<Rightarrow> ref \<Rightarrow> (nat \<Rightarrow> nat \<Rightarrow> nat \<Rightarrow> nat \<Rightarrow> real) \<Rightarrow> nat \<Rightarrow> nat \<Rightarrow> nat \<Rightarrow> nat \<Rightarrow> real" where
  "spec_o st self Xt Htm1 Ct n c y x =
     boundedSigmoid (conv_at st self ''Wxo'' Xt n c y x + conv_at st self ''Who'' Htm1 n c y x
        + param_at st self ''Wco'' [c, y, x] * Ct n c y x
        + param_at st self ''bo'' [c, 0, 0])"

definition spec_Ct_mul :: "store \<Rightarrow> ConvLSTMCell \<Rightarrow> ref \<Rightarrow> ref \<Rightarrow> ref \<Rightarrow> nat \<Rightarrow> nat \<Rightarrow> nat \<Rightarrow> nat \<Rightarrow> real" where
  "spec_Ct_mul st self Xt Htm1 Ctm1 n c y x =
     spec_f st self Xt Htm1 Ctm1 n c y x * elem (st ! Ctm1) [n, c, y, x]
       + spec_i st self Xt Htm1 Ctm1 n c y x * tanh (spec_pre_c st self Xt Htm1 n c y x)"

definition spec_Ht_mul :: "store \<Rightarrow> ConvLSTMCell \<Rightarrow> ref \<Rightarrow> ref \<Rightarrow> ref \<Rightarrow> nat \<Rightarrow> nat \<Rightarrow> nat \<Rightarrow> nat \<Rightarrow> real" where
  "spec_Ht_mul st self Xt Htm1 Ctm1 n c y x =
     spec_o st self Xt Htm1 (spec_Ct_mul st self Xt Htm1 Ctm1) n c y x
       * tanh (spec_Ct_mul st self Xt Htm1 Ctm1 n c y x)"

definition spec_Ct_sub :: "store \<Rightarrow> ConvLSTMCell \<Rightarrow> ref \<Rightarrow> ref \<Rightarrow> ref \<Rightarrow> nat \<Rightarrow> nat \<Rightarrow> nat \<Rightarrow> nat \<Rightarrow> real" where
  "spec_Ct_sub st self Xt Htm1 Ctm1 n c y x =
     spec_f st self Xt Htm1 Ctm1 n c y x * elem (st ! Ctm1) [n, c, y, x]
       + boundedSigmoid (spec_pre_c st self Xt Htm1 n c y x)
       - spec_i st self Xt Htm1 Ctm1 n c y x"

definition spec_Ht_sub :: "store \<Rightarrow> ConvLSTMCell \<Rightarrow> ref \<Rightarrow> ref \<Rightarrow> ref \<Rightarrow> nat \<Rightarrow> nat \<Rightarrow> nat \<Rightarrow> nat \<Rightarrow> real" where
  "spec_Ht_sub st self Xt Htm1 Ctm1 n c y x =
     boundedSigmoid (spec_Ct_sub st self Xt Htm1 Ctm1 n c y x)
       - spec_o st self Xt Htm1 (spec_Ct_sub st self Xt Htm1 Ctm1) n c y x"

text \<open>What the spec asks of the bounded sigmoid, for an input \<open>x\<close> and its output \<open>y\<close>.\<close>

definition sigmoid_contract :: "real \<Rightarrow> real \<Rightarrow> bool" where
  "sigmoid_contract x y =
     (y = clamp (x * 0.2 + 0.5) 0 1 \<and> 0 \<le> y \<and> y \<le> 1 \<and>
      (x \<le> - 2.5 \<longrightarrow> y = 0) \<and> (2.5 \<le> x \<longrightarrow> y = 1) \<and>
      (- 2.5 < x \<and> x < 2.5 \<longrightarrow> y = x * 0.2 + 0.5) \<and>
      (x = 0 \<longrightarrow> y = 0.5) \<and> (x = 2 \<longrightarrow> y = 0.9) \<and> (x = 3 \<longrightarrow> y = 1.0) \<and> (x = - 3 \<longrightarrow> y = 0.0))"

text \<open>
  Frame conditions of a computation: it only adds tensors to the store; its result is a
  tensor it added; of a returned pair, both are at or after position \<open>L\<close>; the second is a
  given reference and the first at or after \<open>L\<close>.
\<close>

definition framed :: "'a M \<Rightarrow> bool" where
  "framed m = (\<forall>st a st'. m st = Inr (a, st') \<longrightarrow> grows st st')"

definition allocates :: "ref M \<Rightarrow> bool" where
  "allocates m =
     (\<forall>st r st'. m st = Inr (r, st') \<longrightarrow> grows st st' \<and> length st \<le> r \<and> r < length st')"

definition fresh2 :: "nat \<Rightarrow> (ref \<times> ref) M \<Rightarrow> bool" where
  "fresh2 L m =
     (\<forall>st r st'. L \<le> length st \<longrightarrow> m st = Inr (r, st') \<longrightarrow>
        grows st st' \<and> L \<le> fst r \<and> fst r < length st' \<and> L \<le> snd r \<and> snd r < length st')"

definition ret2 :: "nat \<Rightarrow> ref \<Rightarrow> (ref \<times> ref) M \<Rightarrow> bool" where
  "ret2 L c m =
     (\<forall>st r st'. L \<le> length st \<longrightarrow> m st = Inr (r, st') \<longrightarrow>
        grows st st' \<and> snd r = c \<and> L \<le> fst r \<and> fst r < length st')"

text \<open>
  The result of a computation that returns a cell, with a function applied to the cell;
  and what a caller can see of the pair \<open>(Ht, Ct)\<close> a computation returns: the shape of
  each tensor and its element at one index.
\<close>

definition on_cell ::
  "(ConvLSTMCell \<Rightarrow> ConvLSTMCell) \<Rightarrow> error + (ConvLSTMCell \<times> store) \<Rightarrow> error + (ConvLSTMCell \<times> store)" where
  "on_cell f r = (case r of Inl e \<Rightarrow> Inl e | Inr (c, st) \<Rightarrow> Inr (f c, st))"

definition observe ::
  "(ref \<times> ref) M \<Rightarrow> store \<Rightarrow> nat list \<Rightarrow> error + ((nat list \<times> real) \<times> (nat list \<times> real))" where
  "observe m st idx =
     (case m st of
        Inl e \<Rightarrow> Inl e
      | Inr ((Ht, Ct), st') \<Rightarrow>
          Inr ((shape (st' ! Ht), elem (st' ! Ht) idx), (shape (st' ! Ct), elem (st' ! Ct) idx)))"

section \<open>Examples\<close>

text \<open>
  A machine with a CUDA device on which tensors are created there; machines on which
  tensors are created on the CPU, as torch does unless told otherwise, with a CUDA device
  or without; and a vector on the CUDA device.
\<close>

definition ex_env :: env where
  "ex_env = \<lparr>cuda_available = True, default_device = CUDA\<rparr>"

definition ex_env_cpu :: "bool \<Rightarrow> env" where
  "ex_env_cpu has_cuda = \<lparr>cuda_available = has_cuda, default_device = CPU\<rparr>"

definition ex_vec :: tensor where
  "ex_vec = \<lparr>dev = CUDA, shape = [4],
      elem = (\<lambda>idx. if idx = [0] then 0 else if idx = [1] then 2 else if idx = [2] then 3 else - 3)\<rparr>"

text \<open>
  A cell with one input channel, one hidden channel, a 1 x 1 frame and a 1 x 1 kernel, as
  the constructor builds it (tied biases, so the convolutions have no bias of their own).
  The weights of the three input-side gate convolutions are \<open>wv\<close>, all other
  convolution weights are 0. The store holds the parameters, then a frame of value \<open>xv\<close>,
  a hidden state 0 and a cell state \<open>cv\<close>, at the references 15, 16 and 17.
\<close>

definition ex_init :: "real \<Rightarrow> kernel_init" where
  "ex_init wv name = ((\<lambda>_. if name \<in> {''Wxi'', ''Wxf'', ''Wxo''} then wv else 0), (\<lambda>_. 0))"

definition ex_conv :: "ref \<Rightarrow> conv2d" where
  "ex_conv r = \<lparr>weight = r, bias = None, pad = (0, 0)\<rparr>"

definition ex_cell :: "string \<Rightarrow> ConvLSTMCell" where
  "ex_cell mode =
     \<lparr>gating_mode = mode, peephole = False, tied_bias = True,
      input_size = (1, 1), input_dim = 1, hidden_dim = 1, kernel_size = (1, 1), padding = (0, 0),
      kern_names = [''Wxi'', ''Whi'', ''Wxf'', ''Whf'', ''Wxo'', ''Who'', ''Wxc'', ''Whc''],
      peep_names = [''Wci'', ''Wcf'', ''Wco''],
      tied_bias_names = [''bi'', ''bf'', ''bc'', ''bo''],
      modules = [''Wxi'' \<mapsto> ex_conv 0, ''Whi'' \<mapsto> ex_conv 1, ''Wxf'' \<mapsto> ex_conv 2,
                 ''Whf'' \<mapsto> ex_conv 3, ''Wxo'' \<mapsto> ex_conv 4, ''Who'' \<mapsto> ex_conv 5,
                 ''Wxc'' \<mapsto> ex_conv 6, ''Whc'' \<mapsto> ex_conv 7],
      params = [''Wci'' \<mapsto> 8, ''Wcf'' \<mapsto> 9, ''Wco'' \<mapsto> 10,
                ''bi'' \<mapsto> 11, ''bf'' \<mapsto> 12, ''bc'' \<mapsto> 13, ''bo'' \<mapsto> 14],
      requires_grad = [''Wci'' \<mapsto> True, ''Wcf'' \<mapsto> True, ''Wco'' \<mapsto> True,
                ''bi'' \<mapsto> True, ''bf'' \<mapsto> True, ''bc'' \<mapsto> True, ''bo'' \<mapsto> True]\<rparr>"

definition ex_const :: "device \<Rightarrow> nat list \<Rightarrow> real \<Rightarrow> tensor" where
  "ex_const d s v = \<lparr>dev = d, shape = s, elem = (\<lambda>_. v)\<rparr>"

definition ex_params :: "device \<Rightarrow> real \<Rightarrow> store" where
  "ex_params d wv =
     [ex_const d [1, 1, 1, 1] wv, ex_const d [1, 1, 1, 1] 0,
      ex_const d [1, 1, 1, 1] wv, ex_const d [1, 1, 1, 1] 0,
      ex_const d [1, 1, 1, 1] wv, ex_const d [1, 1, 1, 1] 0,
      ex_const d [1, 1, 1, 1] 0, ex_const d [1, 1, 1, 1] 0,
      ex_const d [1, 1, 1] 1, ex_const d [1, 1, 1] 1, ex_const d [1, 1, 1] 1,
      ex_const d [1, 1, 1] 0, ex_const d [1, 1, 1] 0, ex_const d [1, 1, 1] 0,
      ex_const d [1, 1, 1] 0]"

definition ex_store :: "device \<Rightarrow> real \<Rightarrow> real \<Rightarrow> real \<Rightarrow> store" where
  "ex_store d wv xv cv =
     ex_params d wv @
       [ex_const d [1, 1, 1, 1] xv, ex_const d [1, 1, 1, 1] 0, ex_const d [1, 1, 1, 1] cv]"

section \<open>Running the operations\<close>

lemma bindS_Inr: "m st = Inr (a, st1) \<Longrightarrow> bindS m f st = f a st1"
  by (simp add: bindS_def)

lemma bindS_Inl: "m st = Inl e \<Longrightarrow> bindS m f st = Inl e"
  by (simp add: bindS_def)

lemma has_append: "has st r d s \<Longrightarrow> has (st @ vs) r d s"
  by (simp add: has_def nth_append)

lemma is4_append: "is4 st r d N C h w g \<Longrightarrow> is4 (st @ vs) r d N C h w g"
  by (simp add: is4_def has_def nth_append)

lemma is3_append: "is3 st r d C h w g \<Longrightarrow> is3 (st @ vs) r d C h w g"
  by (simp add: is3_def has_def nth_append)

lemma is4_has: "is4 st r d N C h w g \<Longrightarrow> has st r d [N, C, h, w]"
  by (simp add: is4_def)

lemma has_is4: "has st r d [N, C, h, w] \<Longrightarrow> is4 st r d N C h w (\<lambda>n c y x. elem (st ! r) [n, c, y, x])"
  by (simp add: is4_def)

lemma has_is3: "has st r d [C, h, w] \<Longrightarrow> is3 st r d C h w (\<lambda>c y x. elem (st ! r) [c, y, x])"
  by (simp add: is3_def)

lemma torch_binop_run:
  assumes "a < length st" "b < length st"
    and "common_device (st ! a) (st ! b) = Some d"
    and "bshape (shape (st ! a)) (shape (st ! b)) = Some s"
  shows "torch_binop f a b st =
     Inr (length st, st @ [\<lparr>dev = d, shape = s,
        elem = (\<lambda>idx. f (elem (st ! a) (bidx (shape (st ! a)) idx))
                         (elem (st ! b) (bidx (shape (st ! b)) idx)))\<rparr>])"
  using assms
  by (simp add: torch_binop_def bindS_def load_def liftE_def t_binop_def alloc_def)

lemma bshape_same4: "bshape [N, C, h, w] [N, C, h, w] = Some [N, C, h, w]"
  by (simp add: bshape_def)

lemma bshape_3_4: "bshape [C, h, w] [N, C, h, w] = Some [N, C, h, w]"
  by (simp add: bshape_def)

lemma bshape_4_b: "bshape [N, C, h, w] [C, 1, 1] = Some [N, C, h, w]"
  by (simp add: bshape_def)

lemma bidx4: "n < N \<Longrightarrow> c < C \<Longrightarrow> y < h \<Longrightarrow> x < w \<Longrightarrow> bidx [N, C, h, w] [n, c, y, x] = [n, c, y, x]"
  by (auto simp add: bidx_def)

lemma bidx3: "c < C \<Longrightarrow> y < h \<Longrightarrow> x < w \<Longrightarrow> bidx [C, h, w] [n, c, y, x] = [c, y, x]"
  by (auto simp add: bidx_def)

lemma bidxb: "c < C \<Longrightarrow> bidx [C, Suc 0, Suc 0] [n, c, y, x] = [c, 0, 0]"
  by (auto simp add: bidx_def)

lemma binop44:
  assumes "is4 st a d N C h w g1" "is4 st b d N C h w g2"
  shows "\<exists>v. torch_binop f a b st = Inr (length st, st @ [v]) \<and>
             is4 (st @ [v]) (length st) d N C h w (\<lambda>n c y x. f (g1 n c y x) (g2 n c y x))"
proof -
  from assms have a: "a < length st" "b < length st"
    and sh: "shape (st ! a) = [N, C, h, w]" "shape (st ! b) = [N, C, h, w]"
    and dv: "dev (st ! a) = d" "dev (st ! b) = d"
    by (simp_all add: is4_def has_def)
  have cd: "common_device (st ! a) (st ! b) = Some d"
    by (simp add: common_device_def dv)
  have bs: "bshape (shape (st ! a)) (shape (st ! b)) = Some [N, C, h, w]"
    by (simp add: sh bshape_same4)
  show ?thesis
    using assms
    by (simp add: torch_binop_run[OF a cd bs] is4_def has_def sh bidx4)
qed

lemma binop34:
  assumes "is3 st a d C h w g1" "is4 st b d N C h w g2"
  shows "\<exists>v. torch_binop f a b st = Inr (length st, st @ [v]) \<and>
             is4 (st @ [v]) (length st) d N C h w (\<lambda>n c y x. f (g1 c y x) (g2 n c y x))"
proof -
  from assms have a: "a < length st" "b < length st"
    and sh: "shape (st ! a) = [C, h, w]" "shape (st ! b) = [N, C, h, w]"
    and dv: "dev (st ! a) = d" "dev (st ! b) = d"
    by (simp_all add: is3_def is4_def has_def)
  have cd: "common_device (st ! a) (st ! b) = Some d"
    by (simp add: common_device_def dv)
  have bs: "bshape (shape (st ! a)) (shape (st ! b)) = Some [N, C, h, w]"
    by (simp add: sh bshape_3_4)
  show ?thesis
    using assms
    by (simp add: torch_binop_run[OF a cd bs] is3_def is4_def has_def sh bidx4 bidx3)
qed

lemma binop4b:
  assumes "is4 st a d N C h w g1" "is3 st b d C 1 1 g2"
  shows "\<exists>v. torch_binop f a b st = Inr (length st, st @ [v]) \<and>
             is4 (st @ [v]) (length st) d N C h w (\<lambda>n c y x. f (g1 n c y x) (g2 c 0 0))"
proof -
  from assms have a: "a < length st" "b < length st"
    and sh: "shape (st ! a) = [N, C, h, w]" "shape (st ! b) = [C, 1, 1]"
    and dv: "dev (st ! a) = d" "dev (st ! b) = d"
    by (simp_all add: is3_def is4_def has_def)
  have cd: "common_device (st ! a) (st ! b) = Some d"
    by (simp add: common_device_def dv)
  have bs: "bshape (shape (st ! a)) (shape (st ! b)) = Some [N, C, h, w]"
    unfolding sh by (rule bshape_4_b)
  show ?thesis
    using assms
    by (simp add: torch_binop_run[OF a cd bs] is3_def is4_def has_def sh bidx4 bidxb)
qed

lemma map4:
  assumes "is4 st a d N C h w g"
  shows "\<exists>v. torch_map f a st = Inr (length st, st @ [v]) \<and>
             is4 (st @ [v]) (length st) d N C h w (\<lambda>n c y x. f (g n c y x))"
  using assms
  by (simp add: torch_map_def bindS_def load_def alloc_def t_map_def is4_def has_def)

lemma conv_ok_append: "conv_ok st d self name ci co kh kw \<Longrightarrow> conv_ok (st @ vs) d self name ci co kh kw"
  by (auto simp add: conv_ok_def has_append split: option.splits)

lemma conv_at_append:
  "conv_ok st d self name ci co kh kw \<Longrightarrow> X < length st \<Longrightarrow>
   conv_at (st @ vs) self name X = conv_at st self name X"
  by (auto simp add: conv_ok_def conv_at_def has_def nth_append fun_eq_iff split: option.splits)

lemma odd_same_size: "odd k \<Longrightarrow> 0 < h \<Longrightarrow> k \<le> h + 2 * (k div 2) \<and> h + 2 * (k div 2) + 1 - k = (h::nat)"
  using odd_two_times_div_two_succ[of k] by arith

lemma call_module_run:
  assumes ok: "conv_ok st d self name ci co kh kw"
    and odd: "odd kh" "odd kw" and pos: "0 < h" "0 < w"
    and X: "has st X d [N, ci, h, w]"
  shows "\<exists>v. call_module self name X st = Inr (length st, st @ [v]) \<and>
             is4 (st @ [v]) (length st) d N co h w (conv_at st self name X)"
proof -
  from ok obtain m where m: "modules self name = Some m"
    and w: "has st (weight m) d [co, ci, kh, kw]"
    and b: "case bias m of None \<Rightarrow> True | Some b \<Rightarrow> has st b d [co]"
    and p: "pad m = (kh div 2, kw div 2)"
    by (auto simp add: conv_ok_def split: option.splits)
  note sz = odd_same_size[OF odd(1) pos(1)] odd_same_size[OF odd(2) pos(2)]
  show ?thesis
  proof (cases "bias m")
    case None
    then show ?thesis
      using w X sz
      by (simp add: call_module_def m conv2d_call_def bindS_def load_def load_opt_def returnS_def
          liftE_def alloc_def t_conv2d_def p has_def bias_fits_def bias_dev_ok_def is4_def conv_at_def)
  next
    case (Some br)
    then show ?thesis
      using w X sz b
      by (simp add: call_module_def m conv2d_call_def bindS_def load_def load_opt_def returnS_def
          liftE_def alloc_def t_conv2d_def p has_def bias_fits_def bias_dev_ok_def is4_def conv_at_def)
  qed
qed

lemma bshape_scalar: "bshape s [] = Some s"
proof -
  have "bshape_rev xs [] = Some xs" for xs by (cases xs) simp_all
  then show ?thesis by (simp add: bshape_def)
qed

lemma bidx_scalar: "bidx [] idx = []"
  by (simp add: bidx_def)

lemma bidx_inside: "list_all2 (<) idx s \<Longrightarrow> bidx s idx = idx"
proof (induction idx s rule: list_all2_induct)
  case Nil
  then show ?case by (simp add: bidx_def)
next
  case (Cons i idx d s)
  then have "length idx = length s" by (simp add: list_all2_lengthD)
  with Cons show ?case by (auto simp add: bidx_def)
qed

lemma clamp_max_min: "max (min v 1) 0 = clamp v 0 1"
  by (simp add: clamp_def max_def min_def)

lemma hard_sigmoid_run:
  assumes cuda: "cuda_available e" and r: "has st r CUDA s"
  shows "\<exists>r' vs. hard_sigmoid e r st = Inr (r', st @ vs) \<and> has (st @ vs) r' CUDA s \<and>
           (\<forall>idx. list_all2 (<) idx s \<longrightarrow>
               elem ((st @ vs) ! r') idx = boundedSigmoid (elem (st ! r) idx))"
proof (cases "default_device e")
  case CPU
  let ?l0 = "\<lparr>dev = CPU, shape = [], elem = (\<lambda>_. 0::real)\<rparr>"
  let ?u0 = "\<lparr>dev = CPU, shape = [], elem = (\<lambda>_. 1::real)\<rparr>"
  let ?a = "t_map (\<lambda>v. v * 0.2) (st ! r)"
  let ?b = "t_map (\<lambda>v. v + 0.5) ?a"
  let ?m = "\<lparr>dev = CUDA, shape = s, elem = (\<lambda>idx. min (elem ?b (bidx s idx)) 1)\<rparr>"
  let ?res = "\<lparr>dev = CUDA, shape = s, elem = (\<lambda>idx. max (elem ?m (bidx s idx)) 0)\<rparr>"
  let ?vs = "[?l0, ?l0\<lparr>dev := CUDA\<rparr>, ?u0, ?u0\<lparr>dev := CUDA\<rparr>, ?a, ?b, ?m, ?res]"
  have "hard_sigmoid e r st = Inr (length st + 7, st @ ?vs)"
    using cuda r CPU
    by (simp add: hard_sigmoid_def bindS_def torch_tensor_def new_tensor_def alloc_def
        tensor_cuda_def load_def returnS_def mul_scalar_def add_scalar_def torch_map_def
        torch_min_def torch_max_def torch_binop_def liftE_def t_binop_def common_device_def
        bshape_scalar bidx_scalar has_def nth_append t_map_def)
  moreover have "has (st @ ?vs) (length st + 7) CUDA s"
    by (simp add: has_def nth_append)
  moreover have "\<forall>idx. list_all2 (<) idx s \<longrightarrow>
      elem ((st @ ?vs) ! (length st + 7)) idx = boundedSigmoid (elem (st ! r) idx)"
    by (simp add: nth_append bidx_inside t_map_def boundedSigmoid_def clamp_max_min)
  ultimately show ?thesis by blast
next
  case CUDA
  let ?l0 = "\<lparr>dev = CUDA, shape = [], elem = (\<lambda>_. 0::real)\<rparr>"
  let ?u0 = "\<lparr>dev = CUDA, shape = [], elem = (\<lambda>_. 1::real)\<rparr>"
  let ?a = "t_map (\<lambda>v. v * 0.2) (st ! r)"
  let ?b = "t_map (\<lambda>v. v + 0.5) ?a"
  let ?m = "\<lparr>dev = CUDA, shape = s, elem = (\<lambda>idx. min (elem ?b (bidx s idx)) 1)\<rparr>"
  let ?res = "\<lparr>dev = CUDA, shape = s, elem = (\<lambda>idx. max (elem ?m (bidx s idx)) 0)\<rparr>"
  let ?vs = "[?l0, ?u0, ?a, ?b, ?m, ?res]"
  have "hard_sigmoid e r st = Inr (length st + 5, st @ ?vs)"
    using cuda r CUDA
    by (simp add: hard_sigmoid_def bindS_def torch_tensor_def new_tensor_def alloc_def
        tensor_cuda_def load_def returnS_def mul_scalar_def add_scalar_def torch_map_def
        torch_min_def torch_max_def torch_binop_def liftE_def t_binop_def common_device_def
        bshape_scalar bidx_scalar has_def nth_append t_map_def)
  moreover have "has (st @ ?vs) (length st + 5) CUDA s"
    by (simp add: has_def nth_append)
  moreover have "\<forall>idx. list_all2 (<) idx s \<longrightarrow>
      elem ((st @ ?vs) ! (length st + 5)) idx = boundedSigmoid (elem (st ! r) idx)"
    by (simp add: nth_append bidx_inside t_map_def boundedSigmoid_def clamp_max_min)
  ultimately show ?thesis by blast
qed

lemma hard_sigmoid4:
  assumes cuda: "cuda_available e" and r: "is4 st r CUDA N C h w g"
  shows "\<exists>r' vs. hard_sigmoid e r st = Inr (r', st @ vs) \<and>
           is4 (st @ vs) r' CUDA N C h w (\<lambda>n c y x. boundedSigmoid (g n c y x))"
proof -
  from r have h: "has st r CUDA [N, C, h, w]" by (simp add: is4_def)
  from hard_sigmoid_run[OF cuda h] obtain r' vs where
    run: "hard_sigmoid e r st = Inr (r', st @ vs)" and h': "has (st @ vs) r' CUDA [N, C, h, w]"
    and el: "\<And>idx. list_all2 (<) idx [N, C, h, w] \<Longrightarrow>
               elem ((st @ vs) ! r') idx = boundedSigmoid (elem (st ! r) idx)"
    by blast
  have "is4 (st @ vs) r' CUDA N C h w (\<lambda>n c y x. boundedSigmoid (g n c y x))"
    using h' r by (simp add: is4_def el)
  with run show ?thesis by blast
qed

lemma param_ok_append: "param_ok st d self name s \<Longrightarrow> param_ok (st @ vs) d self name s"
  by (auto simp add: param_ok_def has_append split: option.splits)

lemma param_at_append:
  "param_ok st d self name s \<Longrightarrow> param_at (st @ vs) self name = param_at st self name"
  by (auto simp add: param_ok_def param_at_def has_def nth_append fun_eq_iff split: option.splits)

lemma get_param_run: "params self name = Some p \<Longrightarrow> get_param self name st = Inr (p, st)"
  by (simp add: get_param_def returnS_def)

lemma add44:
  "is4 st a d N C h w g1 \<Longrightarrow> is4 st b d N C h w g2 \<Longrightarrow>
   \<exists>v. torch_add a b st = Inr (length st, st @ [v]) \<and>
       is4 (st @ [v]) (length st) d N C h w (\<lambda>n c y x. g1 n c y x + g2 n c y x)"
  unfolding torch_add_def by (rule binop44)

lemma sub44:
  "is4 st a d N C h w g1 \<Longrightarrow> is4 st b d N C h w g2 \<Longrightarrow>
   \<exists>v. torch_sub a b st = Inr (length st, st @ [v]) \<and>
       is4 (st @ [v]) (length st) d N C h w (\<lambda>n c y x. g1 n c y x - g2 n c y x)"
  unfolding torch_sub_def by (rule binop44)

lemma mul44:
  "is4 st a d N C h w g1 \<Longrightarrow> is4 st b d N C h w g2 \<Longrightarrow>
   \<exists>v. torch_mul a b st = Inr (length st, st @ [v]) \<and>
       is4 (st @ [v]) (length st) d N C h w (\<lambda>n c y x. g1 n c y x * g2 n c y x)"
  unfolding torch_mul_def by (rule binop44)

lemma mul34:
  "is3 st a d C h w g1 \<Longrightarrow> is4 st b d N C h w g2 \<Longrightarrow>
   \<exists>v. torch_mul a b st = Inr (length st, st @ [v]) \<and>
       is4 (st @ [v]) (length st) d N C h w (\<lambda>n c y x. g1 c y x * g2 n c y x)"
  unfolding torch_mul_def by (rule binop34)

lemma add4b:
  "is4 st a d N C h w g1 \<Longrightarrow> is3 st b d C 1 1 g2 \<Longrightarrow>
   \<exists>v. torch_add a b st = Inr (length st, st @ [v]) \<and>
       is4 (st @ [v]) (length st) d N C h w (\<lambda>n c y x. g1 n c y x + g2 c 0 0)"
  unfolding torch_add_def by (rule binop4b)

lemma tanh4:
  "is4 st a d N C h w g \<Longrightarrow>
   \<exists>v. torch_tanh a st = Inr (length st, st @ [v]) \<and>
       is4 (st @ [v]) (length st) d N C h w (\<lambda>n c y x. tanh (g n c y x))"
  unfolding torch_tanh_def by (rule map4)

lemma param_is3:
  "param_ok st d self name [C, h, w] \<Longrightarrow>
   \<exists>p. params self name = Some p \<and> is3 st p d C h w (\<lambda>c y x. param_at st self name [c, y, x])"
  by (auto simp add: param_ok_def param_at_def is3_def split: option.splits)

lemma gate_sum_run:
  assumes kx: "conv_ok st d self kx ci ch kh kw"
    and kh: "conv_ok st d self khn ch ch kh kw"
    and wc: "param_ok st d self wc [ch, h, w]"
    and b: "param_ok st d self b [ch, 1, 1]"
    and odd: "odd kh" "odd kw" and pos: "0 < h" "0 < w"
    and X: "has st X d [N, ci, h, w]"
    and H: "has st H d [N, ch, h, w]"
    and C: "is4 st Cr d N ch h w gC"
  shows "\<exists>r vs. (\<forall>K. bindS (call_module self kx X) (\<lambda>a1.
                     bindS (call_module self khn H) (\<lambda>a2.
                     bindS (torch_add a1 a2) (\<lambda>a3.
                     bindS (get_param self wc) (\<lambda>p.
                     bindS (torch_mul p Cr) (\<lambda>a4.
                     bindS (torch_add a3 a4) (\<lambda>a5.
                     bindS (get_param self b) (\<lambda>bb.
                     bindS (torch_add a5 bb) K))))))) st = K r (st @ vs)) \<and>
           is4 (st @ vs) r d N ch h w (gate_sum st self kx khn wc b X H gC)"
proof -
  obtain v1 where e1: "call_module self kx X st = Inr (length st, st @ [v1])"
    and p1: "is4 (st @ [v1]) (length st) d N ch h w (conv_at st self kx X)"
    using call_module_run[OF kx odd pos X] by blast
  define st1 where "st1 = st @ [v1]"
  have Hl: "H < length st" using H by (simp add: has_def)
  obtain v2 where e2: "call_module self khn H st1 = Inr (length st1, st1 @ [v2])"
    and p2: "is4 (st1 @ [v2]) (length st1) d N ch h w (conv_at st self khn H)"
    using call_module_run[OF conv_ok_append[OF kh, of "[v1]"] odd pos has_append[OF H, of "[v1]"]]
    by (auto simp add: st1_def conv_at_append[OF kh Hl])
  define st2 where "st2 = st1 @ [v2]"
  have p1': "is4 st2 (length st) d N ch h w (conv_at st self kx X)"
    using is4_append[OF p1, of "[v2]"] by (simp add: st2_def st1_def)
  obtain v3 where e3: "torch_add (length st) (length st1) st2 = Inr (length st2, st2 @ [v3])"
    and p3: "is4 (st2 @ [v3]) (length st2) d N ch h w
               (\<lambda>n c y x. conv_at st self kx X n c y x + conv_at st self khn H n c y x)"
    using add44[OF p1' p2[folded st2_def]] by blast
  define st3 where "st3 = st2 @ [v3]"
  have ext3: "st3 = st @ [v1, v2, v3]" by (simp add: st3_def st2_def st1_def)
  obtain p where gp: "params self wc = Some p"
    and pp: "is3 st p d ch h w (\<lambda>c y x. param_at st self wc [c, y, x])"
    using param_is3[OF wc] by blast
  have pp3: "is3 st3 p d ch h w (\<lambda>c y x. param_at st self wc [c, y, x])"
    unfolding ext3 by (rule is3_append[OF pp])
  have C3: "is4 st3 Cr d N ch h w gC"
    unfolding ext3 by (rule is4_append[OF C])
  obtain v4 where e4: "torch_mul p Cr st3 = Inr (length st3, st3 @ [v4])"
    and p4: "is4 (st3 @ [v4]) (length st3) d N ch h w
               (\<lambda>n c y x. param_at st self wc [c, y, x] * gC n c y x)"
    using mul34[OF pp3 C3] by blast
  define st4 where "st4 = st3 @ [v4]"
  have p3': "is4 st4 (length st2) d N ch h w
               (\<lambda>n c y x. conv_at st self kx X n c y x + conv_at st self khn H n c y x)"
    unfolding st4_def st3_def by (rule is4_append[OF p3])
  obtain v5 where e5: "torch_add (length st2) (length st3) st4 = Inr (length st4, st4 @ [v5])"
    and p5: "is4 (st4 @ [v5]) (length st4) d N ch h w
               (\<lambda>n c y x. conv_at st self kx X n c y x + conv_at st self khn H n c y x
                   + param_at st self wc [c, y, x] * gC n c y x)"
    using add44[OF p3' p4[folded st4_def]] by blast
  define st5 where "st5 = st4 @ [v5]"
  have ext5: "st5 = st @ [v1, v2, v3, v4, v5]" by (simp add: st5_def st4_def ext3)
  obtain q where gq: "params self b = Some q"
    and qq: "is3 st q d ch 1 1 (\<lambda>c y x. param_at st self b [c, y, x])"
    using param_is3[OF b] by blast
  have qq5: "is3 st5 q d ch 1 1 (\<lambda>c y x. param_at st self b [c, y, x])"
    unfolding ext5 by (rule is3_append[OF qq])
  obtain v6 where e6: "torch_add (length st4) q st5 = Inr (length st5, st5 @ [v6])"
    and p6: "is4 (st5 @ [v6]) (length st5) d N ch h w (gate_sum st self kx khn wc b X H gC)"
    using add4b[OF p5[folded st5_def] qq5] by (auto simp add: gate_sum_def[abs_def])
  have "bindS (call_module self kx X) (\<lambda>a1.
          bindS (call_module self khn H) (\<lambda>a2.
          bindS (torch_add a1 a2) (\<lambda>a3.
          bindS (get_param self wc) (\<lambda>p.
          bindS (torch_mul p Cr) (\<lambda>a4.
          bindS (torch_add a3 a4) (\<lambda>a5.
          bindS (get_param self b) (\<lambda>bb.
          bindS (torch_add a5 bb) K))))))) st = K (length st5) (st @ [v1, v2, v3, v4, v5, v6])" for K :: "ref \<Rightarrow> 'a M"
    using e1 e2 e3 e4 e5 e6
    by (simp add: bindS_def get_param_run[OF gp] get_param_run[OF gq]
        st1_def[symmetric] st2_def[symmetric] st3_def[symmetric] st4_def[symmetric] st5_def[symmetric])
      (simp add: ext5)
  moreover have "is4 (st @ [v1, v2, v3, v4, v5, v6]) (length st5) d N ch h w
                   (gate_sum st self kx khn wc b X H gC)"
    using p6 by (simp add: ext5)
  ultimately show ?thesis by blast
qed

lemma gate_sum_append:
  assumes "conv_ok st d self kx ci ch kh kw" "conv_ok st d self khn ch ch kh kw"
    and "param_ok st d self wc s1" "param_ok st d self b s2"
    and "X < length st" "H < length st"
  shows "gate_sum (st @ vs) self kx khn wc b X H gC = gate_sum st self kx khn wc b X H gC"
  using assms
  by (simp add: gate_sum_def[abs_def] conv_at_append[OF assms(1)] conv_at_append[OF assms(2)]
      param_at_append[OF assms(3)] param_at_append[OF assms(4)])

lemma gate_run:
  assumes cuda: "cuda_available e"
    and kx: "conv_ok st CUDA self kx ci ch kh kw"
    and kh: "conv_ok st CUDA self khn ch ch kh kw"
    and wc: "param_ok st CUDA self wc [ch, h, w]"
    and b: "param_ok st CUDA self b [ch, 1, 1]"
    and odd: "odd kh" "odd kw" and pos: "0 < h" "0 < w"
    and X: "has st X CUDA [N, ci, h, w]"
    and H: "has st H CUDA [N, ch, h, w]"
    and C: "is4 st Cr CUDA N ch h w gC"
  shows "\<exists>r vs. (\<forall>K. bindS (call_module self kx X) (\<lambda>a1.
                     bindS (call_module self khn H) (\<lambda>a2.
                     bindS (torch_add a1 a2) (\<lambda>a3.
                     bindS (get_param self wc) (\<lambda>p.
                     bindS (torch_mul p Cr) (\<lambda>a4.
                     bindS (torch_add a3 a4) (\<lambda>a5.
                     bindS (get_param self b) (\<lambda>bb.
                     bindS (torch_add a5 bb) (\<lambda>a6.
                     bindS (hard_sigmoid e a6) K)))))))) st = K r (st @ vs)) \<and>
           is4 (st @ vs) r CUDA N ch h w
             (\<lambda>n c y x. boundedSigmoid (gate_sum st self kx khn wc b X H gC n c y x))"
proof -
  obtain r1 vs1 where
    s1: "\<And>K :: ref \<Rightarrow> 'a M. bindS (call_module self kx X) (\<lambda>a1.
                     bindS (call_module self khn H) (\<lambda>a2.
                     bindS (torch_add a1 a2) (\<lambda>a3.
                     bindS (get_param self wc) (\<lambda>p.
                     bindS (torch_mul p Cr) (\<lambda>a4.
                     bindS (torch_add a3 a4) (\<lambda>a5.
                     bindS (get_param self b) (\<lambda>bb.
                     bindS (torch_add a5 bb) K))))))) st = K r1 (st @ vs1)"
    and p1: "is4 (st @ vs1) r1 CUDA N ch h w (gate_sum st self kx khn wc b X H gC)"
    using gate_sum_run[OF kx kh wc b odd pos X H C, where ?'a = 'a] by blast
  obtain r2 vs2 where e2: "hard_sigmoid e r1 (st @ vs1) = Inr (r2, (st @ vs1) @ vs2)"
    and p2: "is4 ((st @ vs1) @ vs2) r2 CUDA N ch h w
               (\<lambda>n c y x. boundedSigmoid (gate_sum st self kx khn wc b X H gC n c y x))"
    using hard_sigmoid4[OF cuda p1] by blast
  have "bindS (call_module self kx X) (\<lambda>a1.
                     bindS (call_module self khn H) (\<lambda>a2.
                     bindS (torch_add a1 a2) (\<lambda>a3.
                     bindS (get_param self wc) (\<lambda>p.
                     bindS (torch_mul p Cr) (\<lambda>a4.
                     bindS (torch_add a3 a4) (\<lambda>a5.
                     bindS (get_param self b) (\<lambda>bb.
                     bindS (torch_add a5 bb) (\<lambda>a6.
                     bindS (hard_sigmoid e a6) K)))))))) st = K r2 (st @ (vs1 @ vs2))"
    for K :: "ref \<Rightarrow> 'a M"
    by (simp only: s1 bindS_Inr[where m = "hard_sigmoid e r1", OF e2] append_assoc)
  moreover have "is4 (st @ (vs1 @ vs2)) r2 CUDA N ch h w
               (\<lambda>n c y x. boundedSigmoid (gate_sum st self kx khn wc b X H gC n c y x))"
    using p2 by simp
  ultimately show ?thesis by blast
qed

lemma cand_sum_append:
  assumes "conv_ok st d self kx ci ch kh kw" "conv_ok st d self khn ch ch kh kw"
    and "param_ok st d self b s2"
    and "X < length st" "H < length st"
  shows "cand_sum (st @ vs) self kx khn b X H = cand_sum st self kx khn b X H"
  using assms
  by (simp add: cand_sum_def[abs_def] conv_at_append[OF assms(1)] conv_at_append[OF assms(2)]
      param_at_append[OF assms(3)])

lemma cand_sum_run:
  assumes kx: "conv_ok st d self kx ci ch kh kw"
    and kh: "conv_ok st d self khn ch ch kh kw"
    and b: "param_ok st d self b [ch, 1, 1]"
    and odd: "odd kh" "odd kw" and pos: "0 < h" "0 < w"
    and X: "has st X d [N, ci, h, w]"
    and H: "has st H d [N, ch, h, w]"
  shows "\<exists>r vs. (\<forall>K. bindS (call_module self kx X) (\<lambda>a1.
                     bindS (call_module self khn H) (\<lambda>a2.
                     bindS (torch_add a1 a2) (\<lambda>a3.
                     bindS (get_param self b) (\<lambda>bb.
                     bindS (torch_add a3 bb) K)))) st = K r (st @ vs)) \<and>
           is4 (st @ vs) r d N ch h w (cand_sum st self kx khn b X H)"
proof -
  obtain v1 where e1: "call_module self kx X st = Inr (length st, st @ [v1])"
    and p1: "is4 (st @ [v1]) (length st) d N ch h w (conv_at st self kx X)"
    using call_module_run[OF kx odd pos X] by blast
  define st1 where "st1 = st @ [v1]"
  have Hl: "H < length st" using H by (simp add: has_def)
  obtain v2 where e2: "call_module self khn H st1 = Inr (length st1, st1 @ [v2])"
    and p2: "is4 (st1 @ [v2]) (length st1) d N ch h w (conv_at st self khn H)"
    using call_module_run[OF conv_ok_append[OF kh, of "[v1]"] odd pos has_append[OF H, of "[v1]"]]
    by (auto simp add: st1_def conv_at_append[OF kh Hl])
  define st2 where "st2 = st1 @ [v2]"
  have p1': "is4 st2 (length st) d N ch h w (conv_at st self kx X)"
    using is4_append[OF p1, of "[v2]"] by (simp add: st2_def st1_def)
  obtain v3 where e3: "torch_add (length st) (length st1) st2 = Inr (length st2, st2 @ [v3])"
    and p3: "is4 (st2 @ [v3]) (length st2) d N ch h w
               (\<lambda>n c y x. conv_at st self kx X n c y x + conv_at st self khn H n c y x)"
    using add44[OF p1' p2[folded st2_def]] by blast
  define st3 where "st3 = st2 @ [v3]"
  have ext3: "st3 = st @ [v1, v2, v3]" by (simp add: st3_def st2_def st1_def)
  obtain q where gq: "params self b = Some q"
    and qq: "is3 st q d ch 1 1 (\<lambda>c y x. param_at st self b [c, y, x])"
    using param_is3[OF b] by blast
  have qq3: "is3 st3 q d ch 1 1 (\<lambda>c y x. param_at st self b [c, y, x])"
    unfolding ext3 by (rule is3_append[OF qq])
  obtain v4 where e4: "torch_add (length st2) q st3 = Inr (length st3, st3 @ [v4])"
    and p4: "is4 (st3 @ [v4]) (length st3) d N ch h w (cand_sum st self kx khn b X H)"
    using add4b[OF p3[folded st3_def] qq3] by (auto simp add: cand_sum_def[abs_def])
  have "bindS (call_module self kx X) (\<lambda>a1.
          bindS (call_module self khn H) (\<lambda>a2.
          bindS (torch_add a1 a2) (\<lambda>a3.
          bindS (get_param self b) (\<lambda>bb.
          bindS (torch_add a3 bb) K)))) st = K (length st3) (st @ [v1, v2, v3, v4])" for K :: "ref \<Rightarrow> 'a M"
    using e1 e2 e3 e4
    by (simp add: bindS_def get_param_run[OF gq]
        st1_def[symmetric] st2_def[symmetric] st3_def[symmetric])
      (simp add: ext3)
  moreover have "is4 (st @ [v1, v2, v3, v4]) (length st3) d N ch h w (cand_sum st self kx khn b X H)"
    using p4 by (simp add: ext3)
  ultimately show ?thesis by blast
qed

lemma grows_append: "grows st (st @ vs)"
  by (simp add: grows_def)

lemma grows_iff: "grows st st' \<longleftrightarrow> (\<exists>vs. st' = st @ vs)"
  by (metis grows_def append_take_drop_id append_eq_conv_conj)

lemma grows_trans: "grows a b \<Longrightarrow> grows b c \<Longrightarrow> grows a c"
  by (auto simp add: grows_iff)

lemma grows_step: "grows a b \<Longrightarrow> grows a (b @ vs)"
  by (auto simp add: grows_iff)

lemma has_grows: "grows st st' \<Longrightarrow> has st r d s \<Longrightarrow> has st' r d s"
  by (auto simp add: grows_iff has_append)

lemma is4_grows: "grows st st' \<Longrightarrow> is4 st r d N C h w g \<Longrightarrow> is4 st' r d N C h w g"
  by (auto simp add: grows_iff is4_append)

lemma conv_ok_grows: "grows st st' \<Longrightarrow> conv_ok st d self name ci co kh kw \<Longrightarrow> conv_ok st' d self name ci co kh kw"
  by (auto simp add: grows_iff conv_ok_append)

lemma param_ok_grows: "grows st st' \<Longrightarrow> param_ok st d self name s \<Longrightarrow> param_ok st' d self name s"
  by (auto simp add: grows_iff param_ok_append)

lemma gate_sum_grows:
  assumes "grows st st'"
    and "conv_ok st d self kx ci ch kh kw" "conv_ok st d self khn ch ch kh kw"
    and "param_ok st d self wc s1" "param_ok st d self b s2"
    and "has st X d sx" "has st H d sh"
  shows "gate_sum st' self kx khn wc b X H gC = gate_sum st self kx khn wc b X H gC"
proof -
  from assms(1) obtain vs where "st' = st @ vs" by (auto simp add: grows_iff)
  moreover have "X < length st" "H < length st" using assms(6,7) by (simp_all add: has_def)
  ultimately show ?thesis
    using gate_sum_append[OF assms(2-5)] by simp
qed

lemma cand_sum_grows:
  assumes "grows st st'"
    and "conv_ok st d self kx ci ch kh kw" "conv_ok st d self khn ch ch kh kw"
    and "param_ok st d self b s2"
    and "has st X d sx" "has st H d sh"
  shows "cand_sum st' self kx khn b X H = cand_sum st self kx khn b X H"
proof -
  from assms(1) obtain vs where "st' = st @ vs" by (auto simp add: grows_iff)
  moreover have "X < length st" "H < length st" using assms(5,6) by (simp_all add: has_def)
  ultimately show ?thesis
    using cand_sum_append[OF assms(2-4)] by simp
qed

lemma cell_ok_grows: "grows st st' \<Longrightarrow> cell_ok st d self \<Longrightarrow> cell_ok st' d self"
  by (simp add: cell_ok_def Let_def conv_ok_grows param_ok_grows)

lemma state_ok_grows: "grows st st' \<Longrightarrow> state_ok st d self N X H C \<Longrightarrow> state_ok st' d self N X H C"
  by (simp add: state_ok_def has_grows)

lemma gates_run:
  assumes cuda: "cuda_available e" and ok: "cell_ok st CUDA self" and valid: "valid_config self"
    and io: "state_ok st CUDA self N X H C"
  shows "\<exists>ri rf vs. (\<forall>K.
      bindS (call_module self ''Wxi'' X) (\<lambda>i1.
      bindS (call_module self ''Whi'' H) (\<lambda>i2.
      bindS (torch_add i1 i2) (\<lambda>i3.
      bindS (get_param self ''Wci'') (\<lambda>Wci.
      bindS (torch_mul Wci C) (\<lambda>i4.
      bindS (torch_add i3 i4) (\<lambda>i5.
      bindS (get_param self ''bi'') (\<lambda>bi.
      bindS (torch_add i5 bi) (\<lambda>i6.
      bindS (hard_sigmoid e i6) (\<lambda>i.
      bindS (call_module self ''Wxf'' X) (\<lambda>f1.
      bindS (call_module self ''Whf'' H) (\<lambda>f2.
      bindS (torch_add f1 f2) (\<lambda>f3.
      bindS (get_param self ''Wcf'') (\<lambda>Wcf.
      bindS (torch_mul Wcf C) (\<lambda>f4.
      bindS (torch_add f3 f4) (\<lambda>f5.
      bindS (get_param self ''bf'') (\<lambda>bf.
      bindS (torch_add f5 bf) (\<lambda>f6.
      bindS (hard_sigmoid e f6) (\<lambda>f. K i f)))))))))))))))))) st = K ri rf (st @ vs)) \<and>
      is4 (st @ vs) ri CUDA N (hidden_dim self) (fst (input_size self)) (snd (input_size self))
        (spec_i st self X H C) \<and>
      is4 (st @ vs) rf CUDA N (hidden_dim self) (fst (input_size self)) (snd (input_size self))
        (spec_f st self X H C)"
proof -
  let ?gC = "\<lambda>n c y x. elem (st ! C) [n, c, y, x]"
  from valid have odd: "odd (fst (kernel_size self))" "odd (snd (kernel_size self))"
    and pos: "0 < fst (input_size self)" "0 < snd (input_size self)"
    by (simp_all add: valid_config_def)
  from io have X: "has st X CUDA [N, input_dim self, fst (input_size self), snd (input_size self)]"
    and H: "has st H CUDA [N, hidden_dim self, fst (input_size self), snd (input_size self)]"
    and C: "has st C CUDA [N, hidden_dim self, fst (input_size self), snd (input_size self)]"
    by (simp_all add: state_ok_def)
  note C4 = has_is4[OF C]
  from ok have kxi: "conv_ok st CUDA self ''Wxi'' (input_dim self) (hidden_dim self) (fst (kernel_size self)) (snd (kernel_size self))"
    and khi: "conv_ok st CUDA self ''Whi'' (hidden_dim self) (hidden_dim self) (fst (kernel_size self)) (snd (kernel_size self))"
    and kxf: "conv_ok st CUDA self ''Wxf'' (input_dim self) (hidden_dim self) (fst (kernel_size self)) (snd (kernel_size self))"
    and khf: "conv_ok st CUDA self ''Whf'' (hidden_dim self) (hidden_dim self) (fst (kernel_size self)) (snd (kernel_size self))"
    and wci: "param_ok st CUDA self ''Wci'' [hidden_dim self, fst (input_size self), snd (input_size self)]"
    and wcf: "param_ok st CUDA self ''Wcf'' [hidden_dim self, fst (input_size self), snd (input_size self)]"
    and bi: "param_ok st CUDA self ''bi'' [hidden_dim self, 1, 1]"
    and bf: "param_ok st CUDA self ''bf'' [hidden_dim self, 1, 1]"
    by (simp_all add: cell_ok_def Let_def)
  obtain ri vs1 where
    s1: "\<And>K :: ref \<Rightarrow> 'a M.
      bindS (call_module self ''Wxi'' X) (\<lambda>i1.
      bindS (call_module self ''Whi'' H) (\<lambda>i2.
      bindS (torch_add i1 i2) (\<lambda>i3.
      bindS (get_param self ''Wci'') (\<lambda>Wci.
      bindS (torch_mul Wci C) (\<lambda>i4.
      bindS (torch_add i3 i4) (\<lambda>i5.
      bindS (get_param self ''bi'') (\<lambda>bi.
      bindS (torch_add i5 bi) (\<lambda>i6.
      bindS (hard_sigmoid e i6) K)))))))) st = K ri (st @ vs1)"
    and p1: "is4 (st @ vs1) ri CUDA N (hidden_dim self) (fst (input_size self)) (snd (input_size self))
       (\<lambda>n c y x. boundedSigmoid (gate_sum st self ''Wxi'' ''Whi'' ''Wci'' ''bi'' X H ?gC n c y x))"
    using gate_run[OF cuda kxi khi wci bi odd pos X H C4, where ?'a = 'a] by blast
  define st1 where "st1 = st @ vs1"
  have g1: "grows st st1" by (simp add: st1_def grows_append)
  obtain rf vs2 where
    s2: "\<And>K :: ref \<Rightarrow> 'a M.
      bindS (call_module self ''Wxf'' X) (\<lambda>f1.
      bindS (call_module self ''Whf'' H) (\<lambda>f2.
      bindS (torch_add f1 f2) (\<lambda>f3.
      bindS (get_param self ''Wcf'') (\<lambda>Wcf.
      bindS (torch_mul Wcf C) (\<lambda>f4.
      bindS (torch_add f3 f4) (\<lambda>f5.
      bindS (get_param self ''bf'') (\<lambda>bf.
      bindS (torch_add f5 bf) (\<lambda>f6.
      bindS (hard_sigmoid e f6) K)))))))) st1 = K rf (st1 @ vs2)"
    and p2: "is4 (st1 @ vs2) rf CUDA N (hidden_dim self) (fst (input_size self)) (snd (input_size self))
       (\<lambda>n c y x. boundedSigmoid (gate_sum st1 self ''Wxf'' ''Whf'' ''Wcf'' ''bf'' X H ?gC n c y x))"
    using gate_run[OF cuda conv_ok_grows[OF g1 kxf] conv_ok_grows[OF g1 khf]
        param_ok_grows[OF g1 wcf] param_ok_grows[OF g1 bf] odd pos has_grows[OF g1 X]
        has_grows[OF g1 H] is4_grows[OF g1 C4], where ?'a = 'a] by blast
  have "bindS (call_module self ''Wxi'' X) (\<lambda>i1.
      bindS (call_module self ''Whi'' H) (\<lambda>i2.
      bindS (torch_add i1 i2) (\<lambda>i3.
      bindS (get_param self ''Wci'') (\<lambda>Wci.
      bindS (torch_mul Wci C) (\<lambda>i4.
      bindS (torch_add i3 i4) (\<lambda>i5.
      bindS (get_param self ''bi'') (\<lambda>bi.
      bindS (torch_add i5 bi) (\<lambda>i6.
      bindS (hard_sigmoid e i6) (\<lambda>i.
      bindS (call_module self ''Wxf'' X) (\<lambda>f1.
      bindS (call_module self ''Whf'' H) (\<lambda>f2.
      bindS (torch_add f1 f2) (\<lambda>f3.
      bindS (get_param self ''Wcf'') (\<lambda>Wcf.
      bindS (torch_mul Wcf C) (\<lambda>f4.
      bindS (torch_add f3 f4) (\<lambda>f5.
      bindS (get_param self ''bf'') (\<lambda>bf.
      bindS (torch_add f5 bf) (\<lambda>f6.
      bindS (hard_sigmoid e f6) (\<lambda>f. K i f)))))))))))))))))) st = K ri rf (st @ (vs1 @ vs2))"
    for K :: "ref \<Rightarrow> ref \<Rightarrow> 'a M"
    by (simp only: s1 s2[unfolded st1_def] append_assoc)
  moreover have "is4 (st @ (vs1 @ vs2)) ri CUDA N (hidden_dim self) (fst (input_size self)) (snd (input_size self))
        (spec_i st self X H C)"
    using is4_append[OF p1, of vs2]
    by (simp add: spec_i_def[abs_def] gate_sum_def)
  moreover have "is4 (st @ (vs1 @ vs2)) rf CUDA N (hidden_dim self) (fst (input_size self)) (snd (input_size self))
        (spec_f st self X H C)"
    using p2 unfolding gate_sum_grows[OF g1 kxf khf wcf bf X H]
    by (simp add: spec_f_def[abs_def] gate_sum_def st1_def)
  ultimately show ?thesis by blast
qed

lemma grows_length: "grows a b \<Longrightarrow> length a \<le> length b"
  by (auto simp add: grows_iff)

lemma forward_mul_run:
  assumes cuda: "cuda_available e" and ok: "cell_ok st CUDA self" and valid: "valid_config self"
    and io: "state_ok st CUDA self N X H C" and mode: "gating_mode self = ''mul''"
  shows "\<exists>Ht Ct st'. forward e self X (H, C) st = Inr ((Ht, Ct), st') \<and> grows st st' \<and>
           length st \<le> Ht \<and> length st \<le> Ct \<and>
           is4 st' Ht CUDA N (hidden_dim self) (fst (input_size self)) (snd (input_size self)) (spec_Ht_mul st self X H C) \<and>
           is4 st' Ct CUDA N (hidden_dim self) (fst (input_size self)) (snd (input_size self)) (spec_Ct_mul st self X H C)"
proof -
  let ?ch = "hidden_dim self" and ?h = "fst (input_size self)" and ?w = "snd (input_size self)"
  let ?ci = "input_dim self" and ?kh = "fst (kernel_size self)" and ?kw = "snd (kernel_size self)"
  let ?gC = "\<lambda>n c y x. elem (st ! C) [n, c, y, x]"
  from valid have odd: "odd ?kh" "odd ?kw" and pos: "0 < ?h" "0 < ?w"
    by (simp_all add: valid_config_def)
  from io have X: "has st X CUDA [N, ?ci, ?h, ?w]"
    and H: "has st H CUDA [N, ?ch, ?h, ?w]"
    and C: "has st C CUDA [N, ?ch, ?h, ?w]"
    by (simp_all add: state_ok_def)
  note C4 = has_is4[OF C]
  from ok have kxc: "conv_ok st CUDA self ''Wxc'' ?ci ?ch ?kh ?kw"
    and khc: "conv_ok st CUDA self ''Whc'' ?ch ?ch ?kh ?kw"
    and kxo: "conv_ok st CUDA self ''Wxo'' ?ci ?ch ?kh ?kw"
    and kho: "conv_ok st CUDA self ''Who'' ?ch ?ch ?kh ?kw"
    and wco: "param_ok st CUDA self ''Wco'' [?ch, ?h, ?w]"
    and bc: "param_ok st CUDA self ''bc'' [?ch, 1, 1]"
    and bo: "param_ok st CUDA self ''bo'' [?ch, 1, 1]"
    by (simp_all add: cell_ok_def Let_def)
  obtain ri rf vs0 where
    s0: "\<And>K :: ref \<Rightarrow> ref \<Rightarrow> (ref \<times> ref) M.
      bindS (call_module self ''Wxi'' X) (\<lambda>i1.
      bindS (call_module self ''Whi'' H) (\<lambda>i2.
      bindS (torch_add i1 i2) (\<lambda>i3.
      bindS (get_param self ''Wci'') (\<lambda>Wci.
      bindS (torch_mul Wci C) (\<lambda>i4.
      bindS (torch_add i3 i4) (\<lambda>i5.
      bindS (get_param self ''bi'') (\<lambda>bi.
      bindS (torch_add i5 bi) (\<lambda>i6.
      bindS (hard_sigmoid e i6) (\<lambda>i.
      bindS (call_module self ''Wxf'' X) (\<lambda>f1.
      bindS (call_module self ''Whf'' H) (\<lambda>f2.
      bindS (torch_add f1 f2) (\<lambda>f3.
      bindS (get_param self ''Wcf'') (\<lambda>Wcf.
      bindS (torch_mul Wcf C) (\<lambda>f4.
      bindS (torch_add f3 f4) (\<lambda>f5.
      bindS (get_param self ''bf'') (\<lambda>bf.
      bindS (torch_add f5 bf) (\<lambda>f6.
      bindS (hard_sigmoid e f6) (\<lambda>f. K i f)))))))))))))))))) st = K ri rf (st @ vs0)"
    and pi: "is4 (st @ vs0) ri CUDA N ?ch ?h ?w (spec_i st self X H C)"
    and pf: "is4 (st @ vs0) rf CUDA N ?ch ?h ?w (spec_f st self X H C)"
    using gates_run[OF cuda ok valid io, where ?'a = "ref \<times> ref"] by blast
  define sa where "sa = st @ vs0"
  have g_a: "grows st sa" by (simp add: sa_def grows_append)
  obtain rc vs3 where
    s3: "\<And>K :: ref \<Rightarrow> (ref \<times> ref) M.
      bindS (call_module self ''Wxc'' X) (\<lambda>c1.
      bindS (call_module self ''Whc'' H) (\<lambda>c2.
      bindS (torch_add c1 c2) (\<lambda>c3.
      bindS (get_param self ''bc'') (\<lambda>bc.
      bindS (torch_add c3 bc) K)))) sa = K rc (sa @ vs3)"
    and p3: "is4 (sa @ vs3) rc CUDA N ?ch ?h ?w (cand_sum sa self ''Wxc'' ''Whc'' ''bc'' X H)"
    using cand_sum_run[OF conv_ok_grows[OF g_a kxc] conv_ok_grows[OF g_a khc]
        param_ok_grows[OF g_a bc] odd pos has_grows[OF g_a X] has_grows[OF g_a H],
        where ?'a = "ref \<times> ref"] by blast
  define sb where "sb = sa @ vs3"
  have gab: "grows sa sb" by (simp add: sb_def grows_append)
  have pc: "is4 sb rc CUDA N ?ch ?h ?w (spec_pre_c st self X H)"
    using p3 unfolding cand_sum_grows[OF g_a kxc khc bc X H] sb_def
    by (simp add: spec_pre_c_def[abs_def] cand_sum_def[abs_def])

  obtain v4 where e4: "torch_tanh rc sb = Inr (length sb, sb @ [v4])"
    and p4: "is4 (sb @ [v4]) (length sb) CUDA N ?ch ?h ?w (\<lambda>n c y x. tanh (spec_pre_c st self X H n c y x))"
    using tanh4[OF pc] by blast
  define sc where "sc = sb @ [v4]"
  have gbc: "grows sb sc" by (simp add: sc_def grows_append)
  have ga_c: "grows sa sc" using gab gbc by (rule grows_trans)
  have g_c: "grows st sc" using g_a ga_c by (rule grows_trans)
  obtain v5 where e5: "torch_mul rf C sc = Inr (length sc, sc @ [v5])"
    and p5: "is4 (sc @ [v5]) (length sc) CUDA N ?ch ?h ?w
        (\<lambda>n c y x. spec_f st self X H C n c y x * elem (st ! C) [n, c, y, x])"
    using mul44[OF is4_grows[OF ga_c pf[folded sa_def]] is4_grows[OF g_c C4]] by blast
  define sd where "sd = sc @ [v5]"
  have gcd: "grows sc sd" by (simp add: sd_def grows_append)
  have ga_d: "grows sa sd" using ga_c gcd by (rule grows_trans)
  obtain v6 where e6: "torch_mul ri (length sb) sd = Inr (length sd, sd @ [v6])"
    and p6: "is4 (sd @ [v6]) (length sd) CUDA N ?ch ?h ?w
        (\<lambda>n c y x. spec_i st self X H C n c y x * tanh (spec_pre_c st self X H n c y x))"
    using mul44[OF is4_grows[OF ga_d pi[folded sa_def]] is4_grows[OF gcd p4[folded sc_def]]] by blast
  define se where "se = sd @ [v6]"
  have gde: "grows sd se" by (simp add: se_def grows_append)
  obtain v7 where e7: "torch_add (length sc) (length sd) se = Inr (length se, se @ [v7])"
    and p7: "is4 (se @ [v7]) (length se) CUDA N ?ch ?h ?w (spec_Ct_mul st self X H C)"
    using add44[OF is4_grows[OF gde p5[folded sd_def]] p6[folded se_def]]
    by (auto simp add: spec_Ct_mul_def[abs_def])
  define sf where "sf = se @ [v7]"
  have gef: "grows se sf" by (simp add: sf_def grows_append)
  have g_f: "grows st sf"
    using g_a gab gbc gcd gde gef by (blast intro: grows_trans)
  obtain ro vs8 where
    s8: "\<And>K :: ref \<Rightarrow> (ref \<times> ref) M.
      bindS (call_module self ''Wxo'' X) (\<lambda>o1.
      bindS (call_module self ''Who'' H) (\<lambda>o2.
      bindS (torch_add o1 o2) (\<lambda>o3.
      bindS (get_param self ''Wco'') (\<lambda>Wco.
      bindS (torch_mul Wco (length se)) (\<lambda>o4.
      bindS (torch_add o3 o4) (\<lambda>o5.
      bindS (get_param self ''bo'') (\<lambda>bo.
      bindS (torch_add o5 bo) (\<lambda>o6.
      bindS (hard_sigmoid e o6) K)))))))) sf = K ro (sf @ vs8)"
    and p8: "is4 (sf @ vs8) ro CUDA N ?ch ?h ?w
       (\<lambda>n c y x. boundedSigmoid (gate_sum sf self ''Wxo'' ''Who'' ''Wco'' ''bo'' X H
            (spec_Ct_mul st self X H C) n c y x))"
    using gate_run[OF cuda conv_ok_grows[OF g_f kxo] conv_ok_grows[OF g_f kho]
        param_ok_grows[OF g_f wco] param_ok_grows[OF g_f bo] odd pos has_grows[OF g_f X]
        has_grows[OF g_f H] p7[folded sf_def], where ?'a = "ref \<times> ref"] by blast
  define sg where "sg = sf @ vs8"
  have gfg: "grows sf sg" by (simp add: sg_def grows_append)
  have po: "is4 sg ro CUDA N ?ch ?h ?w (spec_o st self X H (spec_Ct_mul st self X H C))"
    using p8 unfolding gate_sum_grows[OF g_f kxo kho wco bo X H] sg_def
    by (simp add: spec_o_def[abs_def] gate_sum_def)

  obtain v9 where e9: "torch_tanh (length se) sg = Inr (length sg, sg @ [v9])"
    and p9: "is4 (sg @ [v9]) (length sg) CUDA N ?ch ?h ?w (\<lambda>n c y x. tanh (spec_Ct_mul st self X H C n c y x))"
    using tanh4[OF is4_grows[OF gfg p7[folded sf_def]]] by blast
  define sh where "sh = sg @ [v9]"
  have ggh: "grows sg sh" by (simp add: sh_def grows_append)
  obtain v10 where e10: "torch_mul ro (length sg) sh = Inr (length sh, sh @ [v10])"
    and p10: "is4 (sh @ [v10]) (length sh) CUDA N ?ch ?h ?w (spec_Ht_mul st self X H C)"
    using mul44[OF is4_grows[OF ggh po] p9[folded sh_def]]
    by (auto simp add: spec_Ht_mul_def[abs_def])
  define si where "si = sh @ [v10]"
  have ghi: "grows sh si" by (simp add: si_def grows_append)
  have g_h: "grows st sh" using g_f gfg ggh by (blast intro: grows_trans)
  have g_i: "grows st si" using g_h ghi by (rule grows_trans)
  have g_e: "grows st se" using g_c gcd gde by (blast intro: grows_trans)
  have gf_i: "grows sf si" using gfg ggh ghi by (blast intro: grows_trans)
  have run: "forward e self X (H, C) st = Inr ((length sh, length se), si)"
    by (simp only: forward_def Let_def fst_conv snd_conv s0 mode simp_thms if_True
        sa_def[symmetric] s3 sb_def[symmetric]
        bindS_Inr[where m = "torch_tanh rc", OF e4] sc_def[symmetric]
        bindS_Inr[where m = "torch_mul rf C", OF e5] sd_def[symmetric]
        bindS_Inr[where m = "torch_mul ri (length sb)", OF e6] se_def[symmetric]
        bindS_Inr[where m = "torch_add (length sc) (length sd)", OF e7] sf_def[symmetric]
        s8 sg_def[symmetric]
        bindS_Inr[where m = "torch_tanh (length se)", OF e9] sh_def[symmetric]
        bindS_Inr[where m = "torch_mul ro (length sg)", OF e10] si_def[symmetric]
        returnS_def)
  show ?thesis
    using run g_i grows_length[OF g_h] grows_length[OF g_e] p10[folded si_def]
      is4_grows[OF gf_i p7[folded sf_def]]
    by blast
qed

lemma forward_sub_run:
  assumes cuda: "cuda_available e" and ok: "cell_ok st CUDA self" and valid: "valid_config self"
    and io: "state_ok st CUDA self N X H C" and mode: "gating_mode self \<noteq> ''mul''"
  shows "\<exists>Ht Ct st'. forward e self X (H, C) st = Inr ((Ht, Ct), st') \<and> grows st st' \<and>
           length st \<le> Ht \<and> length st \<le> Ct \<and>
           is4 st' Ht CUDA N (hidden_dim self) (fst (input_size self)) (snd (input_size self)) (spec_Ht_sub st self X H C) \<and>
           is4 st' Ct CUDA N (hidden_dim self) (fst (input_size self)) (snd (input_size self)) (spec_Ct_sub st self X H C)"
proof -
  let ?ch = "hidden_dim self" and ?h = "fst (input_size self)" and ?w = "snd (input_size self)"
  let ?ci = "input_dim self" and ?kh = "fst (kernel_size self)" and ?kw = "snd (kernel_size self)"
  let ?gC = "\<lambda>n c y x. elem (st ! C) [n, c, y, x]"
  from valid have odd: "odd ?kh" "odd ?kw" and pos: "0 < ?h" "0 < ?w"
    by (simp_all add: valid_config_def)
  from io have X: "has st X CUDA [N, ?ci, ?h, ?w]"
    and H: "has st H CUDA [N, ?ch, ?h, ?w]"
    and C: "has st C CUDA [N, ?ch, ?h, ?w]"
    by (simp_all add: state_ok_def)
  note C4 = has_is4[OF C]
  from ok have kxc: "conv_ok st CUDA self ''Wxc'' ?ci ?ch ?kh ?kw"
    and khc: "conv_ok st CUDA self ''Whc'' ?ch ?ch ?kh ?kw"
    and kxo: "conv_ok st CUDA self ''Wxo'' ?ci ?ch ?kh ?kw"
    and kho: "conv_ok st CUDA self ''Who'' ?ch ?ch ?kh ?kw"
    and wco: "param_ok st CUDA self ''Wco'' [?ch, ?h, ?w]"
    and bc: "param_ok st CUDA self ''bc'' [?ch, 1, 1]"
    and bo: "param_ok st CUDA self ''bo'' [?ch, 1, 1]"
    by (simp_all add: cell_ok_def Let_def)
  obtain ri rf vs0 where
    s0: "\<And>K :: ref \<Rightarrow> ref \<Rightarrow> (ref \<times> ref) M.
      bindS (call_module self ''Wxi'' X) (\<lambda>i1.
      bindS (call_module self ''Whi'' H) (\<lambda>i2.
      bindS (torch_add i1 i2) (\<lambda>i3.
      bindS (get_param self ''Wci'') (\<lambda>Wci.
      bindS (torch_mul Wci C) (\<lambda>i4.
      bindS (torch_add i3 i4) (\<lambda>i5.
      bindS (get_param self ''bi'') (\<lambda>bi.
      bindS (torch_add i5 bi) (\<lambda>i6.
      bindS (hard_sigmoid e i6) (\<lambda>i.
      bindS (call_module self ''Wxf'' X) (\<lambda>f1.
      bindS (call_module self ''Whf'' H) (\<lambda>f2.
      bindS (torch_add f1 f2) (\<lambda>f3.
      bindS (get_param self ''Wcf'') (\<lambda>Wcf.
      bindS (torch_mul Wcf C) (\<lambda>f4.
      bindS (torch_add f3 f4) (\<lambda>f5.
      bindS (get_param self ''bf'') (\<lambda>bf.
      bindS (torch_add f5 bf) (\<lambda>f6.
      bindS (hard_sigmoid e f6) (\<lambda>f. K i f)))))))))))))))))) st = K ri rf (st @ vs0)"
    and pi: "is4 (st @ vs0) ri CUDA N ?ch ?h ?w (spec_i st self X H C)"
    and pf: "is4 (st @ vs0) rf CUDA N ?ch ?h ?w (spec_f st self X H C)"
    using gates_run[OF cuda ok valid io, where ?'a = "ref \<times> ref"] by blast
  define sa where "sa = st @ vs0"
  have g_a: "grows st sa" by (simp add: sa_def grows_append)
  obtain rc vs3 where
    s3: "\<And>K :: ref \<Rightarrow> (ref \<times> ref) M.
      bindS (call_module self ''Wxc'' X) (\<lambda>c1.
      bindS (call_module self ''Whc'' H) (\<lambda>c2.
      bindS (torch_add c1 c2) (\<lambda>c3.
      bindS (get_param self ''bc'') (\<lambda>bc.
      bindS (torch_add c3 bc) K)))) sa = K rc (sa @ vs3)"
    and p3: "is4 (sa @ vs3) rc CUDA N ?ch ?h ?w (cand_sum sa self ''Wxc'' ''Whc'' ''bc'' X H)"
    using cand_sum_run[OF conv_ok_grows[OF g_a kxc] conv_ok_grows[OF g_a khc]
        param_ok_grows[OF g_a bc] odd pos has_grows[OF g_a X] has_grows[OF g_a H],
        where ?'a = "ref \<times> ref"] by blast
  define sb where "sb = sa @ vs3"
  have gab: "grows sa sb" by (simp add: sb_def grows_append)
  have pc: "is4 sb rc CUDA N ?ch ?h ?w (spec_pre_c st self X H)"
    using p3 unfolding cand_sum_grows[OF g_a kxc khc bc X H] sb_def
    by (simp add: spec_pre_c_def[abs_def] cand_sum_def[abs_def])

  have nm: "(gating_mode self = ''mul'') = False" using mode by simp
  obtain rq vs4 where e4: "hard_sigmoid e rc sb = Inr (rq, sb @ vs4)"
    and p4: "is4 (sb @ vs4) rq CUDA N ?ch ?h ?w (\<lambda>n c y x. boundedSigmoid (spec_pre_c st self X H n c y x))"
    using hard_sigmoid4[OF cuda pc] by blast
  define sc where "sc = sb @ vs4"
  have gbc: "grows sb sc" by (simp add: sc_def grows_append)
  have ga_c: "grows sa sc" using gab gbc by (rule grows_trans)
  have g_c: "grows st sc" using g_a ga_c by (rule grows_trans)
  obtain v5 where e5: "torch_mul rf C sc = Inr (length sc, sc @ [v5])"
    and p5: "is4 (sc @ [v5]) (length sc) CUDA N ?ch ?h ?w
        (\<lambda>n c y x. spec_f st self X H C n c y x * elem (st ! C) [n, c, y, x])"
    using mul44[OF is4_grows[OF ga_c pf[folded sa_def]] is4_grows[OF g_c C4]] by blast
  define sd where "sd = sc @ [v5]"
  have gcd: "grows sc sd" by (simp add: sd_def grows_append)
  have ga_d: "grows sa sd" using ga_c gcd by (rule grows_trans)
  obtain v6 where e6: "torch_add (length sc) rq sd = Inr (length sd, sd @ [v6])"
    and p6: "is4 (sd @ [v6]) (length sd) CUDA N ?ch ?h ?w
        (\<lambda>n c y x. spec_f st self X H C n c y x * elem (st ! C) [n, c, y, x]
            + boundedSigmoid (spec_pre_c st self X H n c y x))"
    using add44[OF p5[folded sd_def] is4_grows[OF gcd p4[folded sc_def]]] by blast
  define se where "se = sd @ [v6]"
  have gde: "grows sd se" by (simp add: se_def grows_append)
  have ga_e: "grows sa se" using ga_d gde by (rule grows_trans)
  obtain v7 where e7: "torch_sub (length sd) ri se = Inr (length se, se @ [v7])"
    and p7: "is4 (se @ [v7]) (length se) CUDA N ?ch ?h ?w (spec_Ct_sub st self X H C)"
    using sub44[OF p6[folded se_def] is4_grows[OF ga_e pi[folded sa_def]]]
    by (auto simp add: spec_Ct_sub_def[abs_def])
  define sf where "sf = se @ [v7]"
  have gef: "grows se sf" by (simp add: sf_def grows_append)
  have g_f: "grows st sf"
    using g_a gab gbc gcd gde gef by (blast intro: grows_trans)
  obtain ro vs8 where
    s8: "\<And>K :: ref \<Rightarrow> (ref \<times> ref) M.
      bindS (call_module self ''Wxo'' X) (\<lambda>o1.
      bindS (call_module self ''Who'' H) (\<lambda>o2.
      bindS (torch_add o1 o2) (\<lambda>o3.
      bindS (get_param self ''Wco'') (\<lambda>Wco.
      bindS (torch_mul Wco (length se)) (\<lambda>o4.
      bindS (torch_add o3 o4) (\<lambda>o5.
      bindS (get_param self ''bo'') (\<lambda>bo.
      bindS (torch_add o5 bo) (\<lambda>o6.
      bindS (hard_sigmoid e o6) K)))))))) sf = K ro (sf @ vs8)"
    and p8: "is4 (sf @ vs8) ro CUDA N ?ch ?h ?w
       (\<lambda>n c y x. boundedSigmoid (gate_sum sf self ''Wxo'' ''Who'' ''Wco'' ''bo'' X H
            (spec_Ct_sub st self X H C) n c y x))"
    using gate_run[OF cuda conv_ok_grows[OF g_f kxo] conv_ok_grows[OF g_f kho]
        param_ok_grows[OF g_f wco] param_ok_grows[OF g_f bo] odd pos has_grows[OF g_f X]
        has_grows[OF g_f H] p7[folded sf_def], where ?'a = "ref \<times> ref"] by blast
  define sg where "sg = sf @ vs8"
  have gfg: "grows sf sg" by (simp add: sg_def grows_append)
  have po: "is4 sg ro CUDA N ?ch ?h ?w (spec_o st self X H (spec_Ct_sub st self X H C))"
    using p8 unfolding gate_sum_grows[OF g_f kxo kho wco bo X H] sg_def
    by (simp add: spec_o_def[abs_def] gate_sum_def)

  obtain rh vs9 where e9: "hard_sigmoid e (length se) sg = Inr (rh, sg @ vs9)"
    and p9: "is4 (sg @ vs9) rh CUDA N ?ch ?h ?w (\<lambda>n c y x. boundedSigmoid (spec_Ct_sub st self X H C n c y x))"
    using hard_sigmoid4[OF cuda is4_grows[OF gfg p7[folded sf_def]]] by blast
  define sh where "sh = sg @ vs9"
  have ggh: "grows sg sh" by (simp add: sh_def grows_append)
  obtain v10 where e10: "torch_sub rh ro sh = Inr (length sh, sh @ [v10])"
    and p10: "is4 (sh @ [v10]) (length sh) CUDA N ?ch ?h ?w (spec_Ht_sub st self X H C)"
    using sub44[OF p9[folded sh_def] is4_grows[OF ggh po]]
    by (auto simp add: spec_Ht_sub_def[abs_def])
  define si where "si = sh @ [v10]"
  have ghi: "grows sh si" by (simp add: si_def grows_append)
  have g_h: "grows st sh" using g_f gfg ggh by (blast intro: grows_trans)
  have g_i: "grows st si" using g_h ghi by (rule grows_trans)
  have g_e: "grows st se" using g_c gcd gde by (blast intro: grows_trans)
  have gf_i: "grows sf si" using gfg ggh ghi by (blast intro: grows_trans)
  have run: "forward e self X (H, C) st = Inr ((length sh, length se), si)"
    by (simp only: forward_def Let_def fst_conv snd_conv s0 nm if_False
        sa_def[symmetric] s3 sb_def[symmetric]
        bindS_Inr[where m = "hard_sigmoid e rc", OF e4] sc_def[symmetric]
        bindS_Inr[where m = "torch_mul rf C", OF e5] sd_def[symmetric]
        bindS_Inr[where m = "torch_add (length sc) rq", OF e6] se_def[symmetric]
        bindS_Inr[where m = "torch_sub (length sd) ri", OF e7] sf_def[symmetric]
        s8 sg_def[symmetric]
        bindS_Inr[where m = "hard_sigmoid e (length se)", OF e9] sh_def[symmetric]
        bindS_Inr[where m = "torch_sub rh ro", OF e10] si_def[symmetric]
        returnS_def)
  show ?thesis
    using run g_i grows_length[OF g_h] grows_length[OF g_e] p10[folded si_def]
      is4_grows[OF gf_i p7[folded sf_def]]
    by blast
qed

section \<open>The bounded sigmoid\<close>

lemma boundedSigmoid_contract: "sigmoid_contract x (boundedSigmoid x)"
  unfolding sigmoid_contract_def boundedSigmoid_def clamp_def
  by (intro conjI impI) simp_all

text \<open>
  Claim C3. On a machine with a CUDA device, \<^verbatim>\<open>hard_sigmoid\<close> of a tensor that lives
  there returns a tensor of the same shape whose every element is
  \<open>clamp (x * 0.2 + 0.5) 0 1\<close> of the input's element \<open>x\<close>: it lies in \<open>[0, 1]\<close>, is 0 for
  \<open>x \<le> -2.5\<close>, is 1 for \<open>x \<ge> 2.5\<close>, is \<open>x * 0.2 + 0.5\<close> in between, and maps
  0, 2, 3 and -3 to 0.5, 0.9, 1.0 and 0.0.
\<close>

theorem hard_sigmoid_is_bounded_sigmoid:
  assumes "cuda_available e" and "has st r CUDA s"
  shows "\<exists>r' st'. hard_sigmoid e r st = Inr (r', st') \<and> shape (st' ! r') = s \<and>
           (\<forall>idx. list_all2 (<) idx s \<longrightarrow>
               sigmoid_contract (elem (st ! r) idx) (elem (st' ! r') idx))"
proof -
  from hard_sigmoid_run[OF assms] obtain r' vs where
    run: "hard_sigmoid e r st = Inr (r', st @ vs)" and h: "has (st @ vs) r' CUDA s"
    and el: "\<And>idx. list_all2 (<) idx s \<Longrightarrow>
               elem ((st @ vs) ! r') idx = boundedSigmoid (elem (st ! r) idx)"
    by blast
  have "shape ((st @ vs) ! r') = s" using h by (simp add: has_def)
  moreover have "\<forall>idx. list_all2 (<) idx s \<longrightarrow>
       sigmoid_contract (elem (st ! r) idx) (elem ((st @ vs) ! r') idx)"
    by (simp add: el boundedSigmoid_contract)
  ultimately show ?thesis using run by blast
qed

theorem hard_sigmoid_is_bounded_sigmoid_witness:
  "\<exists>r' st'. hard_sigmoid ex_env 0 [ex_vec] = Inr (r', st') \<and> shape (st' ! r') = [4] \<and>
      elem (st' ! r') [0] = 0.5 \<and> elem (st' ! r') [1] = 0.9 \<and>
      elem (st' ! r') [2] = 1 \<and> elem (st' ! r') [3] = 0"
proof -
  have c: "cuda_available ex_env" by (simp add: ex_env_def)
  have h: "has [ex_vec] 0 CUDA [4]" by (simp add: has_def ex_vec_def)
  from hard_sigmoid_is_bounded_sigmoid[OF c h] obtain r' st' where
    run: "hard_sigmoid ex_env 0 [ex_vec] = Inr (r', st')" and sh: "shape (st' ! r') = [4]"
    and el: "\<And>idx. list_all2 (<) idx [4] \<Longrightarrow>
              sigmoid_contract (elem ([ex_vec] ! 0) idx) (elem (st' ! r') idx)"
    by blast
  have "elem (st' ! r') [0] = 0.5" using el[of "[0]"] by (simp add: ex_vec_def sigmoid_contract_def)
  moreover have "elem (st' ! r') [1] = 0.9" using el[of "[1]"] by (simp add: ex_vec_def sigmoid_contract_def)
  moreover have "elem (st' ! r') [2] = 1" using el[of "[2]"] by (simp add: ex_vec_def sigmoid_contract_def)
  moreover have "elem (st' ! r') [3] = 0" using el[of "[3]"] by (simp add: ex_vec_def sigmoid_contract_def)
  ultimately show ?thesis using run sh by blast
qed

section \<open>The example cell\<close>

lemmas ex_defs = ex_init_def ex_conv_def ex_cell_def ex_const_def ex_params_def ex_store_def ex_env_def

lemma ex_constructed:
  "ConvLSTMCell_init \<lparr>cuda_available = True, default_device = d\<rparr> (ex_init wv) (1, 1) 1 1 (1, 1)
      mode False True [] = Inr (ex_cell mode, ex_params d wv)"
  by (simp add: ConvLSTMCell_init_def new_Conv2d_def new_tensor_def torch_ones_def torch_zeros_def
      Parameter_requires_grad_def bindS_def returnS_def alloc_def ex_defs eval_nat_numeral)

lemma ex_cell_ok: "cell_ok (ex_store d wv xv cv) d (ex_cell mode)"
  by (simp add: cell_ok_def conv_ok_def param_ok_def has_def ex_defs)

lemma ex_valid: "valid_config (ex_cell mode)"
  by (simp add: valid_config_def ex_defs)

lemma ex_state_ok: "state_ok (ex_store d wv xv cv) d (ex_cell mode) 1 15 16 17"
  by (simp add: state_ok_def has_def ex_defs)

lemma ex_conv_at:
  "conv_at (ex_store d wv xv cv) (ex_cell mode) ''Wxi'' 15 0 0 0 0 = wv * xv"
  "conv_at (ex_store d wv xv cv) (ex_cell mode) ''Wxf'' 15 0 0 0 0 = wv * xv"
  "conv_at (ex_store d wv xv cv) (ex_cell mode) ''Wxo'' 15 0 0 0 0 = wv * xv"
  "conv_at (ex_store d wv xv cv) (ex_cell mode) ''Wxc'' 15 0 0 0 0 = 0"
  "conv_at (ex_store d wv xv cv) (ex_cell mode) ''Whi'' 16 0 0 0 0 = 0"
  "conv_at (ex_store d wv xv cv) (ex_cell mode) ''Whf'' 16 0 0 0 0 = 0"
  "conv_at (ex_store d wv xv cv) (ex_cell mode) ''Who'' 16 0 0 0 0 = 0"
  "conv_at (ex_store d wv xv cv) (ex_cell mode) ''Whc'' 16 0 0 0 0 = 0"
  by (simp_all add: conv_at_def conv2d_elem_def padded_def ex_defs)

lemma ex_param_at:
  "param_at (ex_store d wv xv cv) (ex_cell mode) ''Wci'' idx = 1"
  "param_at (ex_store d wv xv cv) (ex_cell mode) ''Wcf'' idx = 1"
  "param_at (ex_store d wv xv cv) (ex_cell mode) ''Wco'' idx = 1"
  "param_at (ex_store d wv xv cv) (ex_cell mode) ''bi'' idx = 0"
  "param_at (ex_store d wv xv cv) (ex_cell mode) ''bf'' idx = 0"
  "param_at (ex_store d wv xv cv) (ex_cell mode) ''bc'' idx = 0"
  "param_at (ex_store d wv xv cv) (ex_cell mode) ''bo'' idx = 0"
  "elem (ex_store d wv xv cv ! 17) idx = cv"
  by (simp_all add: param_at_def ex_defs)

lemma ex_spec_mul:
  "spec_Ct_mul (ex_store d 1 1 2) (ex_cell mode) 15 16 17 0 0 0 0 = 2"
  "spec_Ht_mul (ex_store d 1 1 2) (ex_cell mode) 15 16 17 0 0 0 0 = tanh 2"
  by (simp_all add: spec_Ct_mul_def spec_Ht_mul_def spec_i_def spec_f_def spec_o_def spec_pre_c_def
      ex_conv_at ex_param_at boundedSigmoid_def clamp_def)

lemma ex_spec_sub:
  "spec_Ct_sub (ex_store d 1 1 2) (ex_cell mode) 15 16 17 0 0 0 0 = 1.5"
  "spec_Ht_sub (ex_store d 1 1 2) (ex_cell mode) 15 16 17 0 0 0 0 = - 0.2"
  by (simp_all add: spec_Ct_sub_def spec_Ht_sub_def spec_i_def spec_f_def spec_o_def spec_pre_c_def
      ex_conv_at ex_param_at boundedSigmoid_def clamp_def)

lemma ex_dims:
  "hidden_dim (ex_cell mode) = 1" "input_dim (ex_cell mode) = 1"
  "input_size (ex_cell mode) = (1, 1)" "kernel_size (ex_cell mode) = (1, 1)"
  "gating_mode (ex_cell mode) = mode"
  by (simp_all add: ex_cell_def)

section \<open>One step, in either mode\<close>

lemma forward_run:
  assumes cuda: "cuda_available e" and ok: "cell_ok st CUDA self" and valid: "valid_config self"
    and io: "state_ok st CUDA self N X H C"
  shows "\<exists>Ht Ct st' g1 g2. forward e self X (H, C) st = Inr ((Ht, Ct), st') \<and> grows st st' \<and>
           length st \<le> Ht \<and> length st \<le> Ct \<and>
           is4 st' Ht CUDA N (hidden_dim self) (fst (input_size self)) (snd (input_size self)) g1 \<and>
           is4 st' Ct CUDA N (hidden_dim self) (fst (input_size self)) (snd (input_size self)) g2"
proof (cases "gating_mode self = ''mul''")
  case True
  from forward_mul_run[OF cuda ok valid io True] show ?thesis by blast
next
  case False
  from forward_sub_run[OF cuda ok valid io False] show ?thesis by blast
qed

lemma init_hidden_run:
  assumes m: "modules self ''Wxi'' = Some m" and w: "weight m < length st"
    and d: "cuda_available e \<or> dev (st ! weight m) = CPU"
  shows "init_hidden e self b st =
     Inr ((length st, Suc (length st)),
          st @ [\<lparr>dev = dev (st ! weight m),
                  shape = [b, hidden_dim self, fst (input_size self), snd (input_size self)],
                  elem = (\<lambda>_. 0)\<rparr>,
                \<lparr>dev = dev (st ! weight m),
                  shape = [b, hidden_dim self, fst (input_size self), snd (input_size self)],
                  elem = (\<lambda>_. 0)\<rparr>])"
  using w d
  by (auto simp add: init_hidden_def m bindS_def load_def torch_zeros_def new_tensor_def alloc_def
      returnS_def Let_def)

section \<open>The two gating modes\<close>

text \<open>
  Claim C1. In the mode \<^verbatim>\<open>'mul'\<close>, on a machine with a CUDA device, for a cell, a frame
  and a previous state of the configured shapes that live there, \<^verbatim>\<open>forward\<close> returns
  \<open>(Ht, Ct)\<close> with, at every index, \<open>Ct = f * Ctm1 + i * tanh (ConvXc Xt + ConvHc Htm1 + bc)\<close>
  and \<open>Ht = o * tanh Ct\<close>, where \<open>i\<close>, \<open>f\<close> and \<open>o\<close> are the bounded sigmoid of the sums
  of the spec (\<open>o\<close> with the peephole on the new cell state).
\<close>

theorem forward_mul_equations:
  assumes "cuda_available e" and "cell_ok st CUDA self" and "valid_config self"
    and "state_ok st CUDA self N Xt Htm1 Ctm1" and "gating_mode self = ''mul''"
  shows "\<exists>Ht Ct st'. forward e self Xt (Htm1, Ctm1) st = Inr ((Ht, Ct), st') \<and>
           (\<forall>n<N. \<forall>c<hidden_dim self. \<forall>y<fst (input_size self). \<forall>x<snd (input_size self).
              elem (st' ! Ct) [n, c, y, x] = spec_Ct_mul st self Xt Htm1 Ctm1 n c y x \<and>
              elem (st' ! Ht) [n, c, y, x] = spec_Ht_mul st self Xt Htm1 Ctm1 n c y x)"
proof -
  from forward_mul_run[OF assms] obtain Ht Ct st' where
    run: "forward e self Xt (Htm1, Ctm1) st = Inr ((Ht, Ct), st')"
    and pH: "is4 st' Ht CUDA N (hidden_dim self) (fst (input_size self)) (snd (input_size self)) (spec_Ht_mul st self Xt Htm1 Ctm1)"
    and pC: "is4 st' Ct CUDA N (hidden_dim self) (fst (input_size self)) (snd (input_size self)) (spec_Ct_mul st self Xt Htm1 Ctm1)"
    by blast
  have "\<forall>n<N. \<forall>c<hidden_dim self. \<forall>y<fst (input_size self). \<forall>x<snd (input_size self).
              elem (st' ! Ct) [n, c, y, x] = spec_Ct_mul st self Xt Htm1 Ctm1 n c y x \<and>
              elem (st' ! Ht) [n, c, y, x] = spec_Ht_mul st self Xt Htm1 Ctm1 n c y x"
    using pH pC by (simp add: is4_def)
  with run show ?thesis by blast
qed

theorem forward_mul_equations_witness:
  "\<exists>Ht Ct st'. forward ex_env (ex_cell ''mul'') 15 (16, 17) (ex_store CUDA 1 1 2) = Inr ((Ht, Ct), st') \<and>
      elem (st' ! Ct) [0, 0, 0, 0] = 2 \<and> elem (st' ! Ht) [0, 0, 0, 0] = tanh 2"
proof -
  have c: "cuda_available ex_env" by (simp add: ex_env_def)
  have m: "gating_mode (ex_cell ''mul'') = ''mul''" by (simp add: ex_cell_def)
  have ok: "cell_ok (ex_store CUDA 1 1 2) CUDA (ex_cell ''mul'')" by (rule ex_cell_ok)
  have io: "state_ok (ex_store CUDA 1 1 2) CUDA (ex_cell ''mul'') 1 15 16 17" by (rule ex_state_ok)
  from forward_mul_equations[OF c ok ex_valid io m]
  obtain Ht where "\<exists>Ct st'. forward ex_env (ex_cell ''mul'') 15 (16, 17) (ex_store CUDA 1 1 2) = Inr ((Ht, Ct), st') \<and>
           (\<forall>n<1. \<forall>c<hidden_dim (ex_cell ''mul''). \<forall>y<fst (input_size (ex_cell ''mul'')).
              \<forall>x<snd (input_size (ex_cell ''mul'')).
              elem (st' ! Ct) [n, c, y, x] = spec_Ct_mul (ex_store CUDA 1 1 2) (ex_cell ''mul'') 15 16 17 n c y x \<and>
              elem (st' ! Ht) [n, c, y, x] = spec_Ht_mul (ex_store CUDA 1 1 2) (ex_cell ''mul'') 15 16 17 n c y x)" ..
  then obtain Ct where "\<exists>st'. forward ex_env (ex_cell ''mul'') 15 (16, 17) (ex_store CUDA 1 1 2) = Inr ((Ht, Ct), st') \<and>
           (\<forall>n<1. \<forall>c<hidden_dim (ex_cell ''mul''). \<forall>y<fst (input_size (ex_cell ''mul'')).
              \<forall>x<snd (input_size (ex_cell ''mul'')).
              elem (st' ! Ct) [n, c, y, x] = spec_Ct_mul (ex_store CUDA 1 1 2) (ex_cell ''mul'') 15 16 17 n c y x \<and>
              elem (st' ! Ht) [n, c, y, x] = spec_Ht_mul (ex_store CUDA 1 1 2) (ex_cell ''mul'') 15 16 17 n c y x)" ..
  then obtain st' where
    run: "forward ex_env (ex_cell ''mul'') 15 (16, 17) (ex_store CUDA 1 1 2) = Inr ((Ht, Ct), st')"
    and el: "\<forall>n<1. \<forall>c<hidden_dim (ex_cell ''mul''). \<forall>y<fst (input_size (ex_cell ''mul'')).
              \<forall>x<snd (input_size (ex_cell ''mul'')).
              elem (st' ! Ct) [n, c, y, x] = spec_Ct_mul (ex_store CUDA 1 1 2) (ex_cell ''mul'') 15 16 17 n c y x \<and>
              elem (st' ! Ht) [n, c, y, x] = spec_Ht_mul (ex_store CUDA 1 1 2) (ex_cell ''mul'') 15 16 17 n c y x"
    by (elim exE conjE)
  have v: "elem (st' ! Ct) [0, 0, 0, 0] = 2" "elem (st' ! Ht) [0, 0, 0, 0] = tanh 2"
    using el[rule_format, of 0 0 0 0] by (simp_all add: ex_dims ex_spec_mul)
  show ?thesis
    by (rule exI[of _ Ht], rule exI[of _ Ct], rule exI[of _ st'], intro conjI)
      (rule run, rule v(1), rule v(2))
qed

text \<open>
  Claim C2. In the mode \<^verbatim>\<open>'sub'\<close>, under the same conditions, \<^verbatim>\<open>forward\<close> returns
  \<open>(Ht, Ct)\<close> with, at every index,
  \<open>Ct = f * Ctm1 + boundedSigmoid (ConvXc Xt + ConvHc Htm1 + bc) - i\<close> and
  \<open>Ht = boundedSigmoid Ct - o\<close>, in these directions of the subtractions.
\<close>

theorem forward_sub_equations:
  assumes "cuda_available e" and "cell_ok st CUDA self" and "valid_config self"
    and "state_ok st CUDA self N Xt Htm1 Ctm1" and "gating_mode self = ''sub''"
  shows "\<exists>Ht Ct st'. forward e self Xt (Htm1, Ctm1) st = Inr ((Ht, Ct), st') \<and>
           (\<forall>n<N. \<forall>c<hidden_dim self. \<forall>y<fst (input_size self). \<forall>x<snd (input_size self).
              elem (st' ! Ct) [n, c, y, x] = spec_Ct_sub st self Xt Htm1 Ctm1 n c y x \<and>
              elem (st' ! Ht) [n, c, y, x] = spec_Ht_sub st self Xt Htm1 Ctm1 n c y x)"
proof -
  have nm: "gating_mode self \<noteq> ''mul''" using assms(5) by simp
  from forward_sub_run[OF assms(1-4) nm] obtain Ht Ct st' where
    run: "forward e self Xt (Htm1, Ctm1) st = Inr ((Ht, Ct), st')"
    and pH: "is4 st' Ht CUDA N (hidden_dim self) (fst (input_size self)) (snd (input_size self)) (spec_Ht_sub st self Xt Htm1 Ctm1)"
    and pC: "is4 st' Ct CUDA N (hidden_dim self) (fst (input_size self)) (snd (input_size self)) (spec_Ct_sub st self Xt Htm1 Ctm1)"
    by blast
  have "\<forall>n<N. \<forall>c<hidden_dim self. \<forall>y<fst (input_size self). \<forall>x<snd (input_size self).
              elem (st' ! Ct) [n, c, y, x] = spec_Ct_sub st self Xt Htm1 Ctm1 n c y x \<and>
              elem (st' ! Ht) [n, c, y, x] = spec_Ht_sub st self Xt Htm1 Ctm1 n c y x"
    using pH pC by (simp add: is4_def)
  with run show ?thesis by blast
qed

theorem forward_sub_equations_witness:
  "\<exists>Ht Ct st'. forward ex_env (ex_cell ''sub'') 15 (16, 17) (ex_store CUDA 1 1 2) = Inr ((Ht, Ct), st') \<and>
      elem (st' ! Ct) [0, 0, 0, 0] = 1.5 \<and> elem (st' ! Ht) [0, 0, 0, 0] = - 0.2"
proof -
  have c: "cuda_available ex_env" by (simp add: ex_env_def)
  have m: "gating_mode (ex_cell ''sub'') = ''sub''" by (simp add: ex_cell_def)
  have ok: "cell_ok (ex_store CUDA 1 1 2) CUDA (ex_cell ''sub'')" by (rule ex_cell_ok)
  have io: "state_ok (ex_store CUDA 1 1 2) CUDA (ex_cell ''sub'') 1 15 16 17" by (rule ex_state_ok)
  from forward_sub_equations[OF c ok ex_valid io m]
  obtain Ht where "\<exists>Ct st'. forward ex_env (ex_cell ''sub'') 15 (16, 17) (ex_store CUDA 1 1 2) = Inr ((Ht, Ct), st') \<and>
           (\<forall>n<1. \<forall>c<hidden_dim (ex_cell ''sub''). \<forall>y<fst (input_size (ex_cell ''sub'')).
              \<forall>x<snd (input_size (ex_cell ''sub'')).
              elem (st' ! Ct) [n, c, y, x] = spec_Ct_sub (ex_store CUDA 1 1 2) (ex_cell ''sub'') 15 16 17 n c y x \<and>
              elem (st' ! Ht) [n, c, y, x] = spec_Ht_sub (ex_store CUDA 1 1 2) (ex_cell ''sub'') 15 16 17 n c y x)" ..
  then obtain Ct where "\<exists>st'. forward ex_env (ex_cell ''sub'') 15 (16, 17) (ex_store CUDA 1 1 2) = Inr ((Ht, Ct), st') \<and>
           (\<forall>n<1. \<forall>c<hidden_dim (ex_cell ''sub''). \<forall>y<fst (input_size (ex_cell ''sub'')).
              \<forall>x<snd (input_size (ex_cell ''sub'')).
              elem (st' ! Ct) [n, c, y, x] = spec_Ct_sub (ex_store CUDA 1 1 2) (ex_cell ''sub'') 15 16 17 n c y x \<and>
              elem (st' ! Ht) [n, c, y, x] = spec_Ht_sub (ex_store CUDA 1 1 2) (ex_cell ''sub'') 15 16 17 n c y x)" ..
  then obtain st' where
    run: "forward ex_env (ex_cell ''sub'') 15 (16, 17) (ex_store CUDA 1 1 2) = Inr ((Ht, Ct), st')"
    and el: "\<forall>n<1. \<forall>c<hidden_dim (ex_cell ''sub''). \<forall>y<fst (input_size (ex_cell ''sub'')).
              \<forall>x<snd (input_size (ex_cell ''sub'')).
              elem (st' ! Ct) [n, c, y, x] = spec_Ct_sub (ex_store CUDA 1 1 2) (ex_cell ''sub'') 15 16 17 n c y x \<and>
              elem (st' ! Ht) [n, c, y, x] = spec_Ht_sub (ex_store CUDA 1 1 2) (ex_cell ''sub'') 15 16 17 n c y x"
    by (elim exE conjE)
  have v: "elem (st' ! Ct) [0, 0, 0, 0] = 1.5" "elem (st' ! Ht) [0, 0, 0, 0] = - 0.2"
    using el[rule_format, of 0 0 0 0] by (simp_all add: ex_dims ex_spec_sub)
  show ?thesis
    by (rule exI[of _ Ht], rule exI[of _ Ct], rule exI[of _ st'], intro conjI)
      (rule run, rule v(1), rule v(2))
qed

section \<open>What a call leaves alone\<close>

lemma grows_refl: "grows st st"
  by (simp add: grows_def)

lemma bindS_InrE:
  assumes "bindS m f st = Inr (r, st')"
  obtains a st1 where "m st = Inr (a, st1)" "f a st1 = Inr (r, st')"
  using assms by (auto simp add: bindS_def split: sum.splits)

lemma allocates_framed: "allocates m \<Longrightarrow> framed m"
  by (simp add: allocates_def framed_def)

lemma framed_bind: "framed m \<Longrightarrow> (\<And>a. framed (f a)) \<Longrightarrow> framed (bindS m f)"
proof (unfold framed_def, intro allI impI)
  fix st r st'
  assume m: "\<forall>st a st'. m st = Inr (a, st') \<longrightarrow> grows st st'"
    and f: "\<And>a. \<forall>st r st'. f a st = Inr (r, st') \<longrightarrow> grows st st'"
    and run: "bindS m f st = Inr (r, st')"
  from run obtain a st1 where 1: "m st = Inr (a, st1)" and 2: "f a st1 = Inr (r, st')"
    by (rule bindS_InrE)
  from m 1 have "grows st st1" by blast
  moreover from f 2 have "grows st1 st'" by blast
  ultimately show "grows st st'" by (rule grows_trans)
qed

lemma allocates_bind: "framed m \<Longrightarrow> (\<And>a. allocates (f a)) \<Longrightarrow> allocates (bindS m f)"
proof (unfold allocates_def, intro allI impI)
  fix st r st'
  assume m: "framed m" and f: "\<And>a. \<forall>st r st'. f a st = Inr (r, st') \<longrightarrow> grows st st' \<and> length st \<le> r \<and> r < length st'"
    and run: "bindS m f st = Inr (r, st')"
  from run obtain a st1 where 1: "m st = Inr (a, st1)" and 2: "f a st1 = Inr (r, st')"
    by (rule bindS_InrE)
  from m 1 have g1: "grows st st1" by (auto simp add: framed_def)
  from f 2 have g2: "grows st1 st'" and r: "length st1 \<le> r" "r < length st'" by blast+
  from g1 g2 have "grows st st'" by (rule grows_trans)
  moreover have "length st \<le> r" using grows_length[OF g1] r by simp
  ultimately show "grows st st' \<and> length st \<le> r \<and> r < length st'" using r by simp
qed

lemma framed_returnS: "framed (returnS a)"
  by (simp add: framed_def returnS_def grows_refl)

lemma framed_raise: "framed (raise e)"
  by (simp add: framed_def raise_def)

lemma framed_load: "framed (load r)"
  by (auto simp add: framed_def load_def grows_refl split: if_splits)

lemma framed_liftE: "framed (liftE r)"
  by (auto simp add: framed_def liftE_def grows_refl split: sum.splits)

lemma allocates_alloc: "allocates (alloc t)"
  by (simp add: allocates_def alloc_def grows_append)

lemma allocates_raise: "allocates (raise e)"
  by (simp add: allocates_def raise_def)

lemma allocates_new_tensor: "allocates (new_tensor e d s g)"
  by (simp add: new_tensor_def allocates_alloc allocates_raise)

lemma allocates_binop: "allocates (torch_binop f a b)"
  unfolding torch_binop_def
  by (intro allocates_bind framed_load framed_liftE allocates_alloc)

lemma allocates_map: "allocates (torch_map f a)"
  unfolding torch_map_def
  by (intro allocates_bind framed_load allocates_alloc)

lemma framed_load_opt: "framed (load_opt r)"
  unfolding load_opt_def
  by (cases r) (simp_all add: framed_returnS framed_bind framed_load)

lemma allocates_conv2d_call: "allocates (conv2d_call cv x)"
  unfolding conv2d_call_def
  by (intro allocates_bind framed_load framed_load_opt framed_liftE allocates_alloc)

lemma allocates_call_module: "allocates (call_module self name x)"
  unfolding call_module_def
  by (cases "modules self name") (simp_all add: allocates_raise allocates_conv2d_call)

lemma framed_get_param: "framed (get_param self name)"
  unfolding get_param_def
  by (cases "params self name") (simp_all add: framed_raise framed_returnS)

lemma framed_tensor_cuda: "framed (tensor_cuda e r)"
  unfolding tensor_cuda_def
  by (intro framed_bind framed_load)
    (simp add: framed_raise framed_returnS allocates_framed[OF allocates_alloc])

lemma allocates_hard_sigmoid: "allocates (hard_sigmoid e r)"
  unfolding hard_sigmoid_def torch_tensor_def mul_scalar_def add_scalar_def torch_min_def torch_max_def
  by (intro allocates_bind allocates_framed[OF allocates_new_tensor] framed_tensor_cuda
      allocates_framed[OF allocates_map] allocates_framed[OF allocates_binop] allocates_binop)

lemmas allocates_ops =
  allocates_call_module allocates_hard_sigmoid
  allocates_binop[of "(+)", folded torch_add_def]
  allocates_binop[of "(-)", folded torch_sub_def]
  allocates_binop[of "(*)", folded torch_mul_def]
  allocates_map[of tanh, folded torch_tanh_def]

lemmas framed_ops = allocates_ops[THEN allocates_framed] framed_get_param

lemma fresh2_bind: "framed m \<Longrightarrow> (\<And>a. fresh2 L (f a)) \<Longrightarrow> fresh2 L (bindS m f)"
proof (unfold fresh2_def, intro allI impI)
  fix st r st'
  assume m: "framed m"
    and f: "\<And>a. \<forall>st r st'. L \<le> length st \<longrightarrow> f a st = Inr (r, st') \<longrightarrow>
        grows st st' \<and> L \<le> fst r \<and> fst r < length st' \<and> L \<le> snd r \<and> snd r < length st'"
    and L: "L \<le> length st" and run: "bindS m f st = Inr (r, st')"
  from run obtain a st1 where 1: "m st = Inr (a, st1)" and 2: "f a st1 = Inr (r, st')"
    by (rule bindS_InrE)
  from m 1 have g1: "grows st st1" by (auto simp add: framed_def)
  then have L1: "L \<le> length st1" using L grows_length by fastforce
  from f[of a] L1 2 have *: "grows st1 st' \<and> L \<le> fst r \<and> fst r < length st' \<and> L \<le> snd r \<and> snd r < length st'"
    by blast
  with g1 show "grows st st' \<and> L \<le> fst r \<and> fst r < length st' \<and> L \<le> snd r \<and> snd r < length st'"
    by (blast intro: grows_trans)
qed

lemma ret2_bind: "framed m \<Longrightarrow> (\<And>a. ret2 L c (f a)) \<Longrightarrow> ret2 L c (bindS m f)"
proof (unfold ret2_def, intro allI impI)
  fix st r st'
  assume m: "framed m"
    and f: "\<And>a. \<forall>st r st'. L \<le> length st \<longrightarrow> f a st = Inr (r, st') \<longrightarrow>
        grows st st' \<and> snd r = c \<and> L \<le> fst r \<and> fst r < length st'"
    and L: "L \<le> length st" and run: "bindS m f st = Inr (r, st')"
  from run obtain a st1 where 1: "m st = Inr (a, st1)" and 2: "f a st1 = Inr (r, st')"
    by (rule bindS_InrE)
  from m 1 have g1: "grows st st1" by (auto simp add: framed_def)
  then have L1: "L \<le> length st1" using L grows_length by fastforce
  from f[of a] L1 2 have *: "grows st1 st' \<and> snd r = c \<and> L \<le> fst r \<and> fst r < length st'"
    by blast
  with g1 show "grows st st' \<and> snd r = c \<and> L \<le> fst r \<and> fst r < length st'"
    by (blast intro: grows_trans)
qed

lemma ret2_last: "allocates m \<Longrightarrow> ret2 L c (bindS m (\<lambda>Ht. returnS (Ht, c)))"
proof (unfold ret2_def, intro allI impI)
  fix st r st'
  assume m: "allocates m" and L: "L \<le> length st"
    and run: "bindS m (\<lambda>Ht. returnS (Ht, c)) st = Inr (r, st')"
  from run obtain a st1 where 1: "m st = Inr (a, st1)" and 2: "returnS (a, c) st1 = Inr (r, st')"
    by (rule bindS_InrE)
  from 2 have r: "r = (a, c)" "st' = st1" by (simp_all add: returnS_def)
  from m 1 have "grows st st1 \<and> length st \<le> a \<and> a < length st1" by (auto simp add: allocates_def)
  with r L show "grows st st' \<and> snd r = c \<and> L \<le> fst r \<and> fst r < length st'" by simp
qed

lemma fresh2_ct: "allocates m \<Longrightarrow> (\<And>a. ret2 L a (f a)) \<Longrightarrow> fresh2 L (bindS m f)"
proof (unfold fresh2_def, intro allI impI)
  fix st r st'
  assume m: "allocates m" and f: "\<And>a. ret2 L a (f a)"
    and L: "L \<le> length st" and run: "bindS m f st = Inr (r, st')"
  from run obtain a st1 where 1: "m st = Inr (a, st1)" and 2: "f a st1 = Inr (r, st')"
    by (rule bindS_InrE)
  from m 1 have g1: "grows st st1" and a: "length st \<le> a" "a < length st1"
    by (auto simp add: allocates_def)
  have L1: "L \<le> length st1" using L grows_length[OF g1] by simp
  from f[of a, unfolded ret2_def] L1 2
  have g2: "grows st1 st'" and s: "snd r = a" and h: "L \<le> fst r" "fst r < length st'"
    by blast+
  have "a < length st'" using a grows_length[OF g2] by simp
  moreover have "L \<le> a" using L a by simp
  moreover have "grows st st'" using g1 g2 by (rule grows_trans)
  ultimately show "grows st st' \<and> L \<le> fst r \<and> fst r < length st' \<and> L \<le> snd r \<and> snd r < length st'"
    using s h by simp
qed

lemma fresh2_if: "fresh2 L a \<Longrightarrow> fresh2 L b \<Longrightarrow> fresh2 L (if c then a else b)"
  by simp

lemma forward_fresh: "fresh2 L (forward e self Xt s)"
  unfolding forward_def Let_def
  apply (rule fresh2_bind, rule framed_ops)
  apply (rule fresh2_bind, rule framed_ops)
  apply (rule fresh2_bind, rule framed_ops)
  apply (rule fresh2_bind, rule framed_ops)
  apply (rule fresh2_bind, rule framed_ops)
  apply (rule fresh2_bind, rule framed_ops)
  apply (rule fresh2_bind, rule framed_ops)
  apply (rule fresh2_bind, rule framed_ops)
  apply (rule fresh2_bind, rule framed_ops)
  apply (rule fresh2_bind, rule framed_ops)
  apply (rule fresh2_bind, rule framed_ops)
  apply (rule fresh2_bind, rule framed_ops)
  apply (rule fresh2_bind, rule framed_ops)
  apply (rule fresh2_bind, rule framed_ops)
  apply (rule fresh2_bind, rule framed_ops)
  apply (rule fresh2_bind, rule framed_ops)
  apply (rule fresh2_bind, rule framed_ops)
  apply (rule fresh2_bind, rule framed_ops)
  apply (rule fresh2_if)
   apply (rule fresh2_bind, rule framed_ops)
   apply (rule fresh2_bind, rule framed_ops)
   apply (rule fresh2_bind, rule framed_ops)
   apply (rule fresh2_bind, rule framed_ops)
   apply (rule fresh2_bind, rule framed_ops)
   apply (rule fresh2_bind, rule framed_ops)
   apply (rule fresh2_bind, rule framed_ops)
   apply (rule fresh2_bind, rule framed_ops)
   apply (rule fresh2_ct, rule allocates_ops)
   apply (rule ret2_bind, rule framed_ops)
   apply (rule ret2_bind, rule framed_ops)
   apply (rule ret2_bind, rule framed_ops)
   apply (rule ret2_bind, rule framed_ops)
   apply (rule ret2_bind, rule framed_ops)
   apply (rule ret2_bind, rule framed_ops)
   apply (rule ret2_bind, rule framed_ops)
   apply (rule ret2_bind, rule framed_ops)
   apply (rule ret2_bind, rule framed_ops)
   apply (rule ret2_bind, rule framed_ops)
   apply (rule ret2_last, rule allocates_ops)
  apply (rule fresh2_bind, rule framed_ops)
  apply (rule fresh2_bind, rule framed_ops)
  apply (rule fresh2_bind, rule framed_ops)
  apply (rule fresh2_bind, rule framed_ops)
  apply (rule fresh2_bind, rule framed_ops)
  apply (rule fresh2_bind, rule framed_ops)
  apply (rule fresh2_bind, rule framed_ops)
  apply (rule fresh2_bind, rule framed_ops)
  apply (rule fresh2_ct, rule allocates_ops)
  apply (rule ret2_bind, rule framed_ops)
  apply (rule ret2_bind, rule framed_ops)
  apply (rule ret2_bind, rule framed_ops)
  apply (rule ret2_bind, rule framed_ops)
  apply (rule ret2_bind, rule framed_ops)
  apply (rule ret2_bind, rule framed_ops)
  apply (rule ret2_bind, rule framed_ops)
  apply (rule ret2_bind, rule framed_ops)
  apply (rule ret2_bind, rule framed_ops)
  apply (rule ret2_bind, rule framed_ops)
  apply (rule ret2_last, rule allocates_ops)
  done

lemma forward_frame:
  assumes "forward e self Xt s st = Inr ((Ht, Ct), st')"
  shows "grows st st' \<and> length st \<le> Ht \<and> Ht < length st' \<and> length st \<le> Ct \<and> Ct < length st'"
  using forward_fresh[unfolded fresh2_def, rule_format, OF le_refl assms] by simp

text \<open>
  Claim C10. When \<^verbatim>\<open>forward\<close> returns, every tensor that existed before the call (the
  frame, the previous state, each parameter of the cell) holds the value it held before,
  and the two returned tensors were created by the call.
\<close>

theorem forward_leaves_operands:
  assumes "forward e self Xt (Htm1, Ctm1) st = Inr ((Ht, Ct), st')"
  shows "take (length st) st' = st \<and> (\<forall>r<length st. st' ! r = st ! r) \<and>
         length st \<le> Ht \<and> Ht < length st' \<and> length st \<le> Ct \<and> Ct < length st'"
proof -
  from forward_frame[OF assms] have g: "grows st st'"
    and fr: "length st \<le> Ht" "Ht < length st'" "length st \<le> Ct" "Ct < length st'"
    by simp_all
  from g obtain vs where "st' = st @ vs" by (auto simp add: grows_iff)
  then have "\<forall>r<length st. st' ! r = st ! r" by (simp add: nth_append)
  with g fr show ?thesis by (simp add: grows_def)
qed

theorem forward_leaves_operands_witness:
  "\<exists>Ht Ct st'. forward ex_env (ex_cell ''sub'') 15 (16, 17) (ex_store CUDA 1 1 2) = Inr ((Ht, Ct), st') \<and>
      take 18 st' = ex_store CUDA 1 1 2 \<and> 18 \<le> Ht \<and> Ht < length st' \<and> 18 \<le> Ct \<and> Ct < length st'"
proof -
  have c: "cuda_available ex_env" by (simp add: ex_env_def)
  have ok: "cell_ok (ex_store CUDA 1 1 2) CUDA (ex_cell ''sub'')" by (rule ex_cell_ok)
  have io: "state_ok (ex_store CUDA 1 1 2) CUDA (ex_cell ''sub'') 1 15 16 17" by (rule ex_state_ok)
  have len: "length (ex_store CUDA 1 1 2) = 18" by (simp add: ex_store_def ex_params_def)
  from forward_run[OF c ok ex_valid io] obtain Ht Ct st' where
    run: "forward ex_env (ex_cell ''sub'') 15 (16, 17) (ex_store CUDA 1 1 2) = Inr ((Ht, Ct), st')"
    by blast
  from forward_leaves_operands[OF run] have
    "take 18 st' = ex_store CUDA 1 1 2 \<and> 18 \<le> Ht \<and> Ht < length st' \<and> 18 \<le> Ct \<and> Ct < length st'"
    by (simp add: len)
  with run show ?thesis by blast
qed

section \<open>The constructor\<close>

lemma init_cell_ok:
  assumes "cuda_available e \<or> default_device e = CPU"
  shows "\<exists>self st'. ConvLSTMCell_init e init isz idim hdim ks mode p tb st = Inr (self, st') \<and>
           grows st st' \<and> cell_ok st' (default_device e) self \<and>
           gating_mode self = mode \<and> peephole self = p \<and> tied_bias self = tb \<and>
           input_size self = isz \<and> input_dim self = idim \<and> hidden_dim self = hdim \<and>
           kernel_size self = ks"
  using assms
  by (cases tb)
    (auto simp add: ConvLSTMCell_init_def Let_def new_Conv2d_def new_tensor_def torch_ones_def
      torch_zeros_def Parameter_requires_grad_def bindS_def returnS_def raise_def alloc_def grows_def
      cell_ok_def conv_ok_def param_ok_def has_def nth_append)

lemma init_peephole:
  "ConvLSTMCell_init e init isz idim hdim ks mode p tb st =
   on_cell (\<lambda>c. c\<lparr>peephole := p\<rparr>) (ConvLSTMCell_init e init isz idim hdim ks mode q tb st)"
  by (simp add: ConvLSTMCell_init_def Let_def new_Conv2d_def new_tensor_def torch_ones_def
      torch_zeros_def Parameter_requires_grad_def bindS_def returnS_def raise_def alloc_def on_cell_def)

lemma init_gating_mode:
  "ConvLSTMCell_init e init isz idim hdim ks mode p tb st =
   on_cell (\<lambda>c. c\<lparr>gating_mode := mode\<rparr>) (ConvLSTMCell_init e init isz idim hdim ks mode' p tb st)"
  by (simp add: ConvLSTMCell_init_def Let_def new_Conv2d_def new_tensor_def torch_ones_def
      torch_zeros_def Parameter_requires_grad_def bindS_def returnS_def raise_def alloc_def on_cell_def)

lemma call_module_peephole: "call_module (self\<lparr>peephole := p\<rparr>) = call_module self"
  by (simp add: call_module_def fun_eq_iff)

lemma get_param_peephole: "get_param (self\<lparr>peephole := p\<rparr>) = get_param self"
  by (simp add: get_param_def fun_eq_iff)

lemma call_module_gating_mode: "call_module (self\<lparr>gating_mode := m\<rparr>) = call_module self"
  by (simp add: call_module_def fun_eq_iff)

lemma get_param_gating_mode: "get_param (self\<lparr>gating_mode := m\<rparr>) = get_param self"
  by (simp add: get_param_def fun_eq_iff)

lemma forward_else_branch:
  assumes "m \<noteq> ''mul''" "m' \<noteq> ''mul''"
  shows "forward e (self\<lparr>gating_mode := m\<rparr>) Xt s st = forward e (self\<lparr>gating_mode := m'\<rparr>) Xt s st"
  unfolding forward_def call_module_gating_mode get_param_gating_mode using assms by simp

section \<open>The peephole flag\<close>

lemma forward_ignores_peephole:
  "forward e (self\<lparr>peephole := p\<rparr>) Xt s st = forward e self Xt s st"
  unfolding forward_def call_module_peephole get_param_peephole by simp

lemma init_requires_grad:
  assumes "ConvLSTMCell_init e init isz idim hdim ks mode p tb st = Inr (self, st')"
  shows "requires_grad self ''Wci'' = Some True \<and> requires_grad self ''Wcf'' = Some True \<and>
         requires_grad self ''Wco'' = Some True"
  using assms
  by (cases tb)
    (auto simp add: ConvLSTMCell_init_def Let_def new_Conv2d_def new_tensor_def torch_ones_def
      torch_zeros_def Parameter_requires_grad_def bindS_def returnS_def raise_def alloc_def
      split: if_splits)

text \<open>
  Claim C6 fails on the code, in its last clause. What it says of values holds:
  \<^verbatim>\<open>forward\<close> never reads the peephole flag (\<open>forward_ignores_peephole\<close>), and the
  constructor builds the same tensors, the three peephole tensors of ones among them,
  whatever the flag is (\<open>init_peephole\<close>). But the flag does not decide whether the peephole
  tensors are trainable: the cell constructed with the flag off has three peephole
  parameters whose \<^verbatim>\<open>requires_grad\<close> is on.
\<close>

theorem peephole_off_still_trainable:
  "ConvLSTMCell_init ex_env (ex_init 1) (1, 1) 1 1 (1, 1) ''mul'' False True [] =
     Inr (ex_cell ''mul'', ex_params CUDA 1) \<and>
   peephole (ex_cell ''mul'') = False \<and>
   requires_grad (ex_cell ''mul'') ''Wci'' = Some True \<and>
   requires_grad (ex_cell ''mul'') ''Wcf'' = Some True \<and>
   requires_grad (ex_cell ''mul'') ''Wco'' = Some True"
proof (intro conjI)
  show "ConvLSTMCell_init ex_env (ex_init 1) (1, 1) 1 1 (1, 1) ''mul'' False True [] =
     Inr (ex_cell ''mul'', ex_params CUDA 1)"
    unfolding ex_env_def by (rule ex_constructed)
qed (simp_all add: ex_cell_def)

section \<open>An unknown gating mode\<close>

lemma observe_sub:
  assumes "cuda_available e" and "cell_ok st CUDA self" and "valid_config self"
    and "state_ok st CUDA self N Xt Htm1 Ctm1" and "gating_mode self \<noteq> ''mul''"
    and "n < N" "c < hidden_dim self" "y < fst (input_size self)" "x < snd (input_size self)"
  shows "observe (forward e self Xt (Htm1, Ctm1)) st [n, c, y, x] =
     Inr (([N, hidden_dim self, fst (input_size self), snd (input_size self)],
            spec_Ht_sub st self Xt Htm1 Ctm1 n c y x),
          ([N, hidden_dim self, fst (input_size self), snd (input_size self)],
            spec_Ct_sub st self Xt Htm1 Ctm1 n c y x))"
proof -
  from forward_sub_run[OF assms(1-5)] obtain Ht Ct st' where
    run: "forward e self Xt (Htm1, Ctm1) st = Inr ((Ht, Ct), st')"
    and pH: "is4 st' Ht CUDA N (hidden_dim self) (fst (input_size self)) (snd (input_size self))
               (spec_Ht_sub st self Xt Htm1 Ctm1)"
    and pC: "is4 st' Ct CUDA N (hidden_dim self) (fst (input_size self)) (snd (input_size self))
               (spec_Ct_sub st self Xt Htm1 Ctm1)"
    by blast
  show ?thesis
    using pH pC assms(6-9) by (simp add: observe_def run is4_def has_def)
qed

lemma observe_mul:
  assumes "cuda_available e" and "cell_ok st CUDA self" and "valid_config self"
    and "state_ok st CUDA self N Xt Htm1 Ctm1" and "gating_mode self = ''mul''"
    and "n < N" "c < hidden_dim self" "y < fst (input_size self)" "x < snd (input_size self)"
  shows "observe (forward e self Xt (Htm1, Ctm1)) st [n, c, y, x] =
     Inr (([N, hidden_dim self, fst (input_size self), snd (input_size self)],
            spec_Ht_mul st self Xt Htm1 Ctm1 n c y x),
          ([N, hidden_dim self, fst (input_size self), snd (input_size self)],
            spec_Ct_mul st self Xt Htm1 Ctm1 n c y x))"
proof -
  from forward_mul_run[OF assms(1-5)] obtain Ht Ct st' where
    run: "forward e self Xt (Htm1, Ctm1) st = Inr ((Ht, Ct), st')"
    and pH: "is4 st' Ht CUDA N (hidden_dim self) (fst (input_size self)) (snd (input_size self))
               (spec_Ht_mul st self Xt Htm1 Ctm1)"
    and pC: "is4 st' Ct CUDA N (hidden_dim self) (fst (input_size self)) (snd (input_size self))
               (spec_Ct_mul st self Xt Htm1 Ctm1)"
    by blast
  show ?thesis
    using pH pC assms(6-9) by (simp add: observe_def run is4_def has_def)
qed

lemma ex_observe_sub:
  assumes "mode \<noteq> ''mul''"
  shows "observe (forward ex_env (ex_cell mode) 15 (16, 17)) (ex_store CUDA 1 1 2) [0, 0, 0, 0] =
     Inr (([1, 1, 1, 1], - 0.2), ([1, 1, 1, 1], 1.5))"
proof -
  have c: "cuda_available ex_env" by (simp add: ex_env_def)
  have ok: "cell_ok (ex_store CUDA 1 1 2) CUDA (ex_cell mode)" by (rule ex_cell_ok)
  have io: "state_ok (ex_store CUDA 1 1 2) CUDA (ex_cell mode) 1 15 16 17" by (rule ex_state_ok)
  have m: "gating_mode (ex_cell mode) \<noteq> ''mul''" using assms by (simp add: ex_dims)
  show ?thesis
    using observe_sub[OF c ok ex_valid io m, of 0 0 0 0]
    by (simp add: ex_dims ex_spec_sub)
qed

text \<open>
  Claim C5, as stated, fails: with the mode string \<^verbatim>\<open>'foo'\<close> the constructor returns a cell
  and \<^verbatim>\<open>forward\<close> returns tensors, here with the elements -0.2 and 1.5.
\<close>

theorem unknown_mode_counterexample:
  "ConvLSTMCell_init ex_env (ex_init 1) (1, 1) 1 1 (1, 1) ''foo'' False True [] =
     Inr (ex_cell ''foo'', ex_params CUDA 1) \<and>
   observe (forward ex_env (ex_cell ''foo'') 15 (16, 17)) (ex_store CUDA 1 1 2) [0, 0, 0, 0] =
     Inr (([1, 1, 1, 1], - 0.2), ([1, 1, 1, 1], 1.5))"
proof
  show "ConvLSTMCell_init ex_env (ex_init 1) (1, 1) 1 1 (1, 1) ''foo'' False True [] =
     Inr (ex_cell ''foo'', ex_params CUDA 1)"
    unfolding ex_env_def by (rule ex_constructed)
  show "observe (forward ex_env (ex_cell ''foo'') 15 (16, 17)) (ex_store CUDA 1 1 2) [0, 0, 0, 0] =
     Inr (([1, 1, 1, 1], - 0.2), ([1, 1, 1, 1], 1.5))"
    by (rule ex_observe_sub) simp
qed

text \<open>
  Claim C5, amended. A mode string other than \<^verbatim>\<open>'mul'\<close> and \<^verbatim>\<open>'sub'\<close> raises no error:
  the constructor stores it unchecked and builds what it builds for \<^verbatim>\<open>'sub'\<close>, and
  \<^verbatim>\<open>forward\<close> takes its else branch, so it returns what it returns for \<^verbatim>\<open>'sub'\<close>.
\<close>

theorem unknown_mode_is_subtractive:
  assumes "mode \<noteq> ''mul''" and "mode \<noteq> ''sub''"
  shows "ConvLSTMCell_init e init isz idim hdim ks mode p tb st0 =
           on_cell (\<lambda>c. c\<lparr>gating_mode := mode\<rparr>) (ConvLSTMCell_init e init isz idim hdim ks ''sub'' p tb st0) \<and>
         forward e (self\<lparr>gating_mode := mode\<rparr>) Xt s st =
           forward e (self\<lparr>gating_mode := ''sub''\<rparr>) Xt s st"
proof
  show "ConvLSTMCell_init e init isz idim hdim ks mode p tb st0 =
           on_cell (\<lambda>c. c\<lparr>gating_mode := mode\<rparr>) (ConvLSTMCell_init e init isz idim hdim ks ''sub'' p tb st0)"
    by (rule init_gating_mode)
  show "forward e (self\<lparr>gating_mode := mode\<rparr>) Xt s st =
           forward e (self\<lparr>gating_mode := ''sub''\<rparr>) Xt s st"
    by (rule forward_else_branch) (use assms in simp_all)
qed

theorem unknown_mode_is_subtractive_witness:
  "forward ex_env (ex_cell ''foo'') 15 (16, 17) (ex_store CUDA 1 1 2) =
   forward ex_env (ex_cell ''sub'') 15 (16, 17) (ex_store CUDA 1 1 2)"
proof -
  have a: "''foo'' \<noteq> ''mul''" "''foo'' \<noteq> ''sub''" by simp_all
  have b: "(ex_cell ''sub'')\<lparr>gating_mode := ''foo''\<rparr> = ex_cell ''foo''"
    "(ex_cell ''sub'')\<lparr>gating_mode := ''sub''\<rparr> = ex_cell ''sub''"
    by (simp_all add: ex_cell_def)
  from unknown_mode_is_subtractive[OF a, where e = ex_env and self = "ex_cell ''sub''"
      and Xt = 15 and s = "(16, 17)" and st = "ex_store CUDA 1 1 2"]
  show ?thesis unfolding b by (rule conjunct2)
qed

section \<open>The initial state\<close>

text \<open>
  Claim C9. \<^verbatim>\<open>init_hidden\<close> returns two new tensors of shape
  \<open>(batch_size, hidden_dim, h, w)\<close> whose every element is zero, on the device of the weight
  of \<^verbatim>\<open>self.Wxi\<close>; the tensors that existed keep their values; a second call returns
  tensors equal to those of the first.
\<close>

theorem init_hidden_zeros:
  assumes "modules self ''Wxi'' = Some Wxi" and "weight Wxi < length st"
    and "cuda_available e \<or> dev (st ! weight Wxi) = CPU" and "1 \<le> batch_size"
  shows "\<exists>H C st'. init_hidden e self batch_size st = Inr ((H, C), st') \<and>
           take (length st) st' = st \<and> length st \<le> H \<and> length st \<le> C \<and>
           shape (st' ! H) = [batch_size, hidden_dim self, fst (input_size self), snd (input_size self)] \<and>
           shape (st' ! C) = [batch_size, hidden_dim self, fst (input_size self), snd (input_size self)] \<and>
           dev (st' ! H) = dev (st ! weight Wxi) \<and> dev (st' ! C) = dev (st ! weight Wxi) \<and>
           (\<forall>idx. elem (st' ! H) idx = 0 \<and> elem (st' ! C) idx = 0) \<and>
           (\<exists>H2 C2 st''. init_hidden e self batch_size st' = Inr ((H2, C2), st'') \<and>
               st'' ! H2 = st' ! H \<and> st'' ! C2 = st' ! C)"
proof -
  let ?z = "\<lparr>dev = dev (st ! weight Wxi),
              shape = [batch_size, hidden_dim self, fst (input_size self), snd (input_size self)],
              elem = (\<lambda>_. 0::real)\<rparr>"
  have 1: "init_hidden e self batch_size st = Inr ((length st, Suc (length st)), st @ [?z, ?z])"
    by (rule init_hidden_run[OF assms(1-3)])
  have w': "weight Wxi < length (st @ [?z, ?z])" using assms(2) by simp
  have d': "cuda_available e \<or> dev ((st @ [?z, ?z]) ! weight Wxi) = CPU"
    using assms(2,3) by (simp add: nth_append)
  have 2: "init_hidden e self batch_size (st @ [?z, ?z]) =
      Inr ((length st + 2, length st + 3), st @ [?z, ?z, ?z, ?z])"
    using init_hidden_run[OF assms(1) w' d', of batch_size] assms(2) by (simp add: nth_append)
  show ?thesis
    unfolding 1
    by (rule exI[of _ "length st"], rule exI[of _ "Suc (length st)"], rule exI[of _ "st @ [?z, ?z]"])
      (simp add: 2 nth_append)
qed

theorem init_hidden_zeros_witness:
  "\<exists>H C st'. init_hidden ex_env (ex_cell ''mul'') 2 (ex_params CUDA 1) = Inr ((H, C), st') \<and>
      shape (st' ! H) = [2, 1, 1, 1] \<and> shape (st' ! C) = [2, 1, 1, 1] \<and>
      dev (st' ! H) = CUDA \<and> dev (st' ! C) = CUDA \<and>
      elem (st' ! H) [1, 0, 0, 0] = 0 \<and> elem (st' ! C) [1, 0, 0, 0] = 0"
proof -
  have m: "modules (ex_cell ''mul'') ''Wxi'' = Some (ex_conv 0)" by (simp add: ex_cell_def)
  have w: "weight (ex_conv 0) < length (ex_params CUDA 1)" by (simp add: ex_conv_def ex_params_def)
  have d: "cuda_available ex_env \<or> dev (ex_params CUDA 1 ! weight (ex_conv 0)) = CPU"
    by (simp add: ex_env_def)
  have b: "1 \<le> (2::nat)" by simp
  have dv: "dev (ex_params CUDA 1 ! weight (ex_conv 0)) = CUDA"
    by (simp add: ex_conv_def ex_params_def ex_const_def)
  from init_hidden_zeros[OF m w d b] obtain H C st' where
    run: "init_hidden ex_env (ex_cell ''mul'') 2 (ex_params CUDA 1) = Inr ((H, C), st')"
    and sh: "shape (st' ! H) = [2, hidden_dim (ex_cell ''mul''), fst (input_size (ex_cell ''mul'')),
                 snd (input_size (ex_cell ''mul''))]"
       "shape (st' ! C) = [2, hidden_dim (ex_cell ''mul''), fst (input_size (ex_cell ''mul'')),
                 snd (input_size (ex_cell ''mul''))]"
    and dev: "dev (st' ! H) = dev (ex_params CUDA 1 ! weight (ex_conv 0))"
       "dev (st' ! C) = dev (ex_params CUDA 1 ! weight (ex_conv 0))"
    and z: "\<forall>idx. elem (st' ! H) idx = 0 \<and> elem (st' ! C) idx = 0"
    by blast
  show ?thesis
    by (rule exI[of _ H], rule exI[of _ C], rule exI[of _ st'])
      (use run sh dev z in \<open>simp add: ex_dims dv\<close>)
qed

section \<open>Shapes\<close>

lemma state_okI:
  "has st X d [N, input_dim self, fst (input_size self), snd (input_size self)] \<Longrightarrow>
   has st H d [N, hidden_dim self, fst (input_size self), snd (input_size self)] \<Longrightarrow>
   has st C d [N, hidden_dim self, fst (input_size self), snd (input_size self)] \<Longrightarrow>
   state_ok st d self N X H C"
  by (simp add: state_ok_def)

text \<open>
  Claim C4. For a cell with odd kernel sizes and the padding \<open>(kh div 2, kw div 2)\<close>, a frame
  of shape \<open>(batch, input_dim, h, w)\<close> and a state of two tensors of shape
  \<open>(batch, hidden_dim, h, w)\<close>, on the CUDA device, \<^verbatim>\<open>forward\<close> returns two tensors of
  shape \<open>(batch, hidden_dim, h, w)\<close>, which with the same cell are a state for the next step;
  \<^verbatim>\<open>init_hidden\<close> returns such a state too.
\<close>

theorem shapes_preserved:
  assumes "cuda_available e" and "cell_ok st CUDA self" and "valid_config self"
    and "state_ok st CUDA self N Xt Htm1 Ctm1" and "1 \<le> N"
  shows "(\<exists>Ht Ct st'. forward e self Xt (Htm1, Ctm1) st = Inr ((Ht, Ct), st') \<and>
            shape (st' ! Ht) = [N, hidden_dim self, fst (input_size self), snd (input_size self)] \<and>
            shape (st' ! Ct) = [N, hidden_dim self, fst (input_size self), snd (input_size self)] \<and>
            cell_ok st' CUDA self \<and> state_ok st' CUDA self N Xt Ht Ct) \<and>
         (\<exists>H C st'. init_hidden e self N st = Inr ((H, C), st') \<and>
            shape (st' ! H) = [N, hidden_dim self, fst (input_size self), snd (input_size self)] \<and>
            shape (st' ! C) = [N, hidden_dim self, fst (input_size self), snd (input_size self)] \<and>
            cell_ok st' CUDA self \<and> state_ok st' CUDA self N Xt H C)"
proof
  let ?s = "[N, hidden_dim self, fst (input_size self), snd (input_size self)]"
  from assms(4) have X: "has st Xt CUDA [N, input_dim self, fst (input_size self), snd (input_size self)]"
    by (simp add: state_ok_def)
  from forward_run[OF assms(1-4)] obtain Ht Ct st' g1 g2 where
    run: "forward e self Xt (Htm1, Ctm1) st = Inr ((Ht, Ct), st')" and g: "grows st st'"
    and pH: "is4 st' Ht CUDA N (hidden_dim self) (fst (input_size self)) (snd (input_size self)) g1"
    and pC: "is4 st' Ct CUDA N (hidden_dim self) (fst (input_size self)) (snd (input_size self)) g2"
    by blast
  have hH: "has st' Ht CUDA ?s" and hC: "has st' Ct CUDA ?s"
    using pH pC by (simp_all add: is4_def)
  have "state_ok st' CUDA self N Xt Ht Ct"
    by (rule state_okI[OF has_grows[OF g X] hH hC])
  moreover have "cell_ok st' CUDA self" by (rule cell_ok_grows[OF g assms(2)])
  moreover have "shape (st' ! Ht) = ?s" "shape (st' ! Ct) = ?s"
    using hH hC by (simp_all add: has_def)
  ultimately show "\<exists>Ht Ct st'. forward e self Xt (Htm1, Ctm1) st = Inr ((Ht, Ct), st') \<and>
            shape (st' ! Ht) = ?s \<and> shape (st' ! Ct) = ?s \<and>
            cell_ok st' CUDA self \<and> state_ok st' CUDA self N Xt Ht Ct"
    using run by blast
next
  let ?s = "[N, hidden_dim self, fst (input_size self), snd (input_size self)]"
  let ?z = "\<lparr>dev = CUDA, shape = ?s, elem = (\<lambda>_. 0::real)\<rparr>"
  from assms(4) have X: "has st Xt CUDA [N, input_dim self, fst (input_size self), snd (input_size self)]"
    by (simp add: state_ok_def)
  from assms(2) obtain m where m: "modules self ''Wxi'' = Some m"
    and w: "weight m < length st" and d: "dev (st ! weight m) = CUDA"
    by (auto simp add: cell_ok_def Let_def conv_ok_def has_def split: option.splits)
  have run: "init_hidden e self N st = Inr ((length st, Suc (length st)), st @ [?z, ?z])"
    using init_hidden_run[OF m w, of e N] assms(1) by (simp add: d)
  have g: "grows st (st @ [?z, ?z])" by (rule grows_append)
  have hH: "has (st @ [?z, ?z]) (length st) CUDA ?s" and hC: "has (st @ [?z, ?z]) (Suc (length st)) CUDA ?s"
    by (simp_all add: has_def nth_append)
  have "state_ok (st @ [?z, ?z]) CUDA self N Xt (length st) (Suc (length st))"
    by (rule state_okI[OF has_grows[OF g X] hH hC])
  moreover have "cell_ok (st @ [?z, ?z]) CUDA self" by (rule cell_ok_grows[OF g assms(2)])
  moreover have "shape ((st @ [?z, ?z]) ! length st) = ?s" "shape ((st @ [?z, ?z]) ! Suc (length st)) = ?s"
    using hH hC by (simp_all add: has_def)
  ultimately show "\<exists>H C st'. init_hidden e self N st = Inr ((H, C), st') \<and>
            shape (st' ! H) = ?s \<and> shape (st' ! C) = ?s \<and>
            cell_ok st' CUDA self \<and> state_ok st' CUDA self N Xt H C"
    using run by blast
qed

theorem shapes_preserved_witness:
  "(\<exists>Ht Ct st'. forward ex_env (ex_cell ''mul'') 15 (16, 17) (ex_store CUDA 1 1 2) = Inr ((Ht, Ct), st') \<and>
       shape (st' ! Ht) = [1, 1, 1, 1] \<and> shape (st' ! Ct) = [1, 1, 1, 1]) \<and>
   (\<exists>H C st'. init_hidden ex_env (ex_cell ''mul'') 1 (ex_store CUDA 1 1 2) = Inr ((H, C), st') \<and>
       shape (st' ! H) = [1, 1, 1, 1] \<and> shape (st' ! C) = [1, 1, 1, 1])"
proof -
  have c: "cuda_available ex_env" by (simp add: ex_env_def)
  have ok: "cell_ok (ex_store CUDA 1 1 2) CUDA (ex_cell ''mul'')" by (rule ex_cell_ok)
  have io: "state_ok (ex_store CUDA 1 1 2) CUDA (ex_cell ''mul'') 1 15 16 17" by (rule ex_state_ok)
  have b: "1 \<le> (1::nat)" by simp
  note th = shapes_preserved[OF c ok ex_valid io b]
  from th[THEN conjunct1] obtain Ht Ct st' where
    1: "forward ex_env (ex_cell ''mul'') 15 (16, 17) (ex_store CUDA 1 1 2) = Inr ((Ht, Ct), st')"
      "shape (st' ! Ht) = [1, hidden_dim (ex_cell ''mul''), fst (input_size (ex_cell ''mul'')),
          snd (input_size (ex_cell ''mul''))]"
      "shape (st' ! Ct) = [1, hidden_dim (ex_cell ''mul''), fst (input_size (ex_cell ''mul'')),
          snd (input_size (ex_cell ''mul''))]"
    by blast
  from th[THEN conjunct2] obtain H C st'' where
    2: "init_hidden ex_env (ex_cell ''mul'') 1 (ex_store CUDA 1 1 2) = Inr ((H, C), st'')"
      "shape (st'' ! H) = [1, hidden_dim (ex_cell ''mul''), fst (input_size (ex_cell ''mul'')),
          snd (input_size (ex_cell ''mul''))]"
      "shape (st'' ! C) = [1, hidden_dim (ex_cell ''mul''), fst (input_size (ex_cell ''mul'')),
          snd (input_size (ex_cell ''mul''))]"
    by blast
  have "\<exists>Ht Ct st'. forward ex_env (ex_cell ''mul'') 15 (16, 17) (ex_store CUDA 1 1 2) = Inr ((Ht, Ct), st') \<and>
       shape (st' ! Ht) = [1, 1, 1, 1] \<and> shape (st' ! Ct) = [1, 1, 1, 1]"
    by (rule exI[of _ Ht], rule exI[of _ Ct], rule exI[of _ st']) (use 1 in \<open>simp add: ex_dims\<close>)
  moreover have "\<exists>H C st'. init_hidden ex_env (ex_cell ''mul'') 1 (ex_store CUDA 1 1 2) = Inr ((H, C), st') \<and>
       shape (st' ! H) = [1, 1, 1, 1] \<and> shape (st' ! C) = [1, 1, 1, 1]"
    by (rule exI[of _ H], rule exI[of _ C], rule exI[of _ st'']) (use 2 in \<open>simp add: ex_dims\<close>)
  ultimately show ?thesis by (rule conjI)
qed

section \<open>The two modes compared\<close>

lemma cell_ok_gating_mode: "cell_ok st d (self\<lparr>gating_mode := m\<rparr>) = cell_ok st d self"
  by (simp add: cell_ok_def conv_ok_def param_ok_def)

lemma valid_config_gating_mode: "valid_config (self\<lparr>gating_mode := m\<rparr>) = valid_config self"
  by (simp add: valid_config_def)

lemma state_ok_gating_mode: "state_ok st d (self\<lparr>gating_mode := m\<rparr>) = state_ok st d self"
  by (simp add: state_ok_def fun_eq_iff)

lemma conv_at_gating_mode: "conv_at st (self\<lparr>gating_mode := m\<rparr>) = conv_at st self"
  by (simp add: conv_at_def fun_eq_iff)

lemma param_at_gating_mode: "param_at st (self\<lparr>gating_mode := m\<rparr>) = param_at st self"
  by (simp add: param_at_def fun_eq_iff)

lemma spec_gating_mode:
  "spec_Ct_mul st (self\<lparr>gating_mode := m\<rparr>) = spec_Ct_mul st self"
  "spec_Ht_mul st (self\<lparr>gating_mode := m\<rparr>) = spec_Ht_mul st self"
  "spec_Ct_sub st (self\<lparr>gating_mode := m\<rparr>) = spec_Ct_sub st self"
  "spec_Ht_sub st (self\<lparr>gating_mode := m\<rparr>) = spec_Ht_sub st self"
  by (simp_all add: fun_eq_iff spec_Ct_mul_def spec_Ht_mul_def spec_Ct_sub_def spec_Ht_sub_def
      spec_i_def spec_f_def spec_o_def spec_pre_c_def conv_at_gating_mode param_at_gating_mode)

lemma ex_spec_zero:
  "spec_i (ex_store d 0 0 0) (ex_cell mode) 15 16 17 0 0 0 0 = 1 / 2"
  "spec_f (ex_store d 0 0 0) (ex_cell mode) 15 16 17 0 0 0 0 = 1 / 2"
  "spec_Ct_mul (ex_store d 0 0 0) (ex_cell mode) 15 16 17 0 0 0 0 = 0"
  "spec_Ht_mul (ex_store d 0 0 0) (ex_cell mode) 15 16 17 0 0 0 0 = 0"
  "spec_Ct_sub (ex_store d 0 0 0) (ex_cell mode) 15 16 17 0 0 0 0 = 0"
  "spec_Ht_sub (ex_store d 0 0 0) (ex_cell mode) 15 16 17 0 0 0 0 = 0"
  by (simp_all add: spec_Ct_mul_def spec_Ht_mul_def spec_Ct_sub_def spec_Ht_sub_def
      spec_i_def spec_f_def spec_o_def spec_pre_c_def
      ex_conv_at ex_param_at boundedSigmoid_def clamp_def)

lemma ex_spec_gates:
  "spec_i (ex_store d 1 1 2) (ex_cell mode) 15 16 17 0 0 0 0 = 1"
  "spec_f (ex_store d 1 1 2) (ex_cell mode) 15 16 17 0 0 0 0 = 1"
  "spec_pre_c (ex_store d 1 1 2) (ex_cell mode) 15 16 0 0 0 0 = 0"
  by (simp_all add: spec_i_def spec_f_def spec_pre_c_def
      ex_conv_at ex_param_at boundedSigmoid_def clamp_def)

text \<open>
  Claim C7, as stated, fails. With all convolution weights and tied biases 0, peepholes 1
  and a zero state, the input and forget gates are both 1/2 (so \<open>i \<noteq> 0\<close> and \<open>f \<noteq> 1\<close>), and
  the two modes return the same tensors: of shape \<open>(1, 1, 1, 1)\<close> with the element 0.
\<close>

theorem modes_agree_counterexample:
  "spec_i (ex_store CUDA 0 0 0) (ex_cell ''mul'') 15 16 17 0 0 0 0 = 1 / 2 \<and>
   spec_f (ex_store CUDA 0 0 0) (ex_cell ''mul'') 15 16 17 0 0 0 0 = 1 / 2 \<and>
   observe (forward ex_env (ex_cell ''mul'') 15 (16, 17)) (ex_store CUDA 0 0 0) [0, 0, 0, 0] =
     Inr (([1, 1, 1, 1], 0), ([1, 1, 1, 1], 0)) \<and>
   observe (forward ex_env (ex_cell ''sub'') 15 (16, 17)) (ex_store CUDA 0 0 0) [0, 0, 0, 0] =
     Inr (([1, 1, 1, 1], 0), ([1, 1, 1, 1], 0))"
proof -
  have c: "cuda_available ex_env" by (simp add: ex_env_def)
  have ok: "cell_ok (ex_store CUDA 0 0 0) CUDA (ex_cell mode)" for mode by (rule ex_cell_ok)
  have io: "state_ok (ex_store CUDA 0 0 0) CUDA (ex_cell mode) 1 15 16 17" for mode
    by (rule ex_state_ok)
  have m: "gating_mode (ex_cell ''mul'') = ''mul''" by (simp add: ex_dims)
  have s: "gating_mode (ex_cell ''sub'') \<noteq> ''mul''" by (simp add: ex_dims)
  have 1: "observe (forward ex_env (ex_cell ''mul'') 15 (16, 17)) (ex_store CUDA 0 0 0) [0, 0, 0, 0] =
     Inr (([1, 1, 1, 1], 0), ([1, 1, 1, 1], 0))"
    using observe_mul[OF c ok ex_valid io m, of 0 0 0 0] by (simp add: ex_dims ex_spec_zero)
  have 2: "observe (forward ex_env (ex_cell ''sub'') 15 (16, 17)) (ex_store CUDA 0 0 0) [0, 0, 0, 0] =
     Inr (([1, 1, 1, 1], 0), ([1, 1, 1, 1], 0))"
    using observe_sub[OF c ok ex_valid io s, of 0 0 0 0] by (simp add: ex_dims ex_spec_zero)
  show ?thesis
    by (intro conjI) (rule ex_spec_zero(1), rule ex_spec_zero(2), rule 1, rule 2)
qed

text \<open>
  Claim C7, amended. For the same cell, frame, state and store, the two modes return
  different tensors whenever, at some element, \<open>i * tanh a \<noteq> boundedSigmoid a - i\<close>, where \<open>a\<close>
  is the sum under the candidate's activation: the new cell states differ at that element.
\<close>

theorem modes_differ:
  assumes "cuda_available e" and "cell_ok st CUDA self" and "valid_config self"
    and "state_ok st CUDA self N Xt Htm1 Ctm1"
    and "n < N" "c < hidden_dim self" "y < fst (input_size self)" "x < snd (input_size self)"
    and "spec_i st self Xt Htm1 Ctm1 n c y x * tanh (spec_pre_c st self Xt Htm1 n c y x)
           \<noteq> boundedSigmoid (spec_pre_c st self Xt Htm1 n c y x) - spec_i st self Xt Htm1 Ctm1 n c y x"
  shows "\<exists>Hm Cm Hs Cs.
           observe (forward e (self\<lparr>gating_mode := ''mul''\<rparr>) Xt (Htm1, Ctm1)) st [n, c, y, x] = Inr (Hm, Cm) \<and>
           observe (forward e (self\<lparr>gating_mode := ''sub''\<rparr>) Xt (Htm1, Ctm1)) st [n, c, y, x] = Inr (Hs, Cs) \<and>
           snd Cm \<noteq> snd Cs"
proof -
  let ?s = "[N, hidden_dim self, fst (input_size self), snd (input_size self)]"
  have okm: "cell_ok st CUDA (self\<lparr>gating_mode := m\<rparr>)" for m
    using assms(2) by (simp add: cell_ok_gating_mode)
  have vm: "valid_config (self\<lparr>gating_mode := m\<rparr>)" for m
    using assms(3) by (simp add: valid_config_gating_mode)
  have iom: "state_ok st CUDA (self\<lparr>gating_mode := m\<rparr>) N Xt Htm1 Ctm1" for m
    using assms(4) by (simp add: state_ok_gating_mode)
  have 1: "observe (forward e (self\<lparr>gating_mode := ''mul''\<rparr>) Xt (Htm1, Ctm1)) st [n, c, y, x] =
      Inr ((?s, spec_Ht_mul st self Xt Htm1 Ctm1 n c y x), (?s, spec_Ct_mul st self Xt Htm1 Ctm1 n c y x))"
    using observe_mul[OF assms(1) okm vm iom, of "''mul''" n c y x] assms(5-8)
    by (simp add: spec_gating_mode)
  have 2: "observe (forward e (self\<lparr>gating_mode := ''sub''\<rparr>) Xt (Htm1, Ctm1)) st [n, c, y, x] =
      Inr ((?s, spec_Ht_sub st self Xt Htm1 Ctm1 n c y x), (?s, spec_Ct_sub st self Xt Htm1 Ctm1 n c y x))"
    using observe_sub[OF assms(1) okm vm iom, of "''sub''" n c y x] assms(5-8)
    by (simp add: spec_gating_mode)
  have 3: "spec_Ct_mul st self Xt Htm1 Ctm1 n c y x \<noteq> spec_Ct_sub st self Xt Htm1 Ctm1 n c y x"
    using assms(9) by (simp add: spec_Ct_mul_def spec_Ct_sub_def)
  show ?thesis
    unfolding 1 2 using 3 by simp
qed

theorem modes_differ_witness:
  "\<exists>Hm Cm Hs Cs.
      observe (forward ex_env (ex_cell ''mul'') 15 (16, 17)) (ex_store CUDA 1 1 2) [0, 0, 0, 0] = Inr (Hm, Cm) \<and>
      observe (forward ex_env (ex_cell ''sub'') 15 (16, 17)) (ex_store CUDA 1 1 2) [0, 0, 0, 0] = Inr (Hs, Cs) \<and>
      snd Cm \<noteq> snd Cs"
proof -
  have c: "cuda_available ex_env" by (simp add: ex_env_def)
  have ok: "cell_ok (ex_store CUDA 1 1 2) CUDA (ex_cell ''mul'')" by (rule ex_cell_ok)
  have io: "state_ok (ex_store CUDA 1 1 2) CUDA (ex_cell ''mul'') 1 15 16 17" by (rule ex_state_ok)
  have r: "(0::nat) < 1" "0 < hidden_dim (ex_cell ''mul'')" "0 < fst (input_size (ex_cell ''mul''))"
    "0 < snd (input_size (ex_cell ''mul''))"
    by (simp_all add: ex_dims)
  have ne: "spec_i (ex_store CUDA 1 1 2) (ex_cell ''mul'') 15 16 17 0 0 0 0
              * tanh (spec_pre_c (ex_store CUDA 1 1 2) (ex_cell ''mul'') 15 16 0 0 0 0)
           \<noteq> boundedSigmoid (spec_pre_c (ex_store CUDA 1 1 2) (ex_cell ''mul'') 15 16 0 0 0 0)
              - spec_i (ex_store CUDA 1 1 2) (ex_cell ''mul'') 15 16 17 0 0 0 0"
    by (simp add: ex_spec_gates boundedSigmoid_def clamp_def)
  have b: "(ex_cell ''mul'')\<lparr>gating_mode := ''mul''\<rparr> = ex_cell ''mul''"
    "(ex_cell ''mul'')\<lparr>gating_mode := ''sub''\<rparr> = ex_cell ''sub''"
    by (simp_all add: ex_cell_def)
  from modes_differ[OF c ok ex_valid io r ne] show ?thesis unfolding b .
qed

section \<open>Operands on the CPU\<close>

lemma hard_sigmoid_cpu:
  assumes "has st r CPU s" and "s \<noteq> []"
  shows "hard_sigmoid e r st = Inl (if cuda_available e then DeviceMismatch else CudaUnavailable)"
proof (cases "default_device e")
  case CPU
  then show ?thesis
    using assms
    by (simp add: hard_sigmoid_def bindS_def torch_tensor_def new_tensor_def alloc_def
        tensor_cuda_def load_def returnS_def raise_def mul_scalar_def add_scalar_def torch_map_def
        torch_min_def torch_max_def torch_binop_def liftE_def t_binop_def common_device_def
        has_def nth_append t_map_def)
next
  case CUDA
  then show ?thesis
    using assms
    by (simp add: hard_sigmoid_def bindS_def torch_tensor_def new_tensor_def alloc_def
        tensor_cuda_def load_def returnS_def raise_def mul_scalar_def add_scalar_def torch_map_def
        torch_min_def torch_max_def torch_binop_def liftE_def t_binop_def common_device_def
        has_def nth_append t_map_def)
qed

lemma forward_cpu_fails:
  assumes ok: "cell_ok st CPU self" and valid: "valid_config self"
    and io: "state_ok st CPU self N X H C"
  shows "forward e self X (H, C) st =
           Inl (if cuda_available e then DeviceMismatch else CudaUnavailable)"
proof -
  let ?ch = "hidden_dim self" and ?h = "fst (input_size self)" and ?w = "snd (input_size self)"
  let ?ci = "input_dim self" and ?kh = "fst (kernel_size self)" and ?kw = "snd (kernel_size self)"
  from valid have odd: "odd ?kh" "odd ?kw" and pos: "0 < ?h" "0 < ?w"
    by (simp_all add: valid_config_def)
  from io have X: "has st X CPU [N, ?ci, ?h, ?w]"
    and H: "has st H CPU [N, ?ch, ?h, ?w]"
    and C: "has st C CPU [N, ?ch, ?h, ?w]"
    by (simp_all add: state_ok_def)
  from ok have kxi: "conv_ok st CPU self ''Wxi'' ?ci ?ch ?kh ?kw"
    and khi: "conv_ok st CPU self ''Whi'' ?ch ?ch ?kh ?kw"
    and wci: "param_ok st CPU self ''Wci'' [?ch, ?h, ?w]"
    and bi: "param_ok st CPU self ''bi'' [?ch, 1, 1]"
    by (simp_all add: cell_ok_def Let_def)
  obtain r vs g where
    s1: "\<And>K :: ref \<Rightarrow> (ref \<times> ref) M.
      bindS (call_module self ''Wxi'' X) (\<lambda>i1.
      bindS (call_module self ''Whi'' H) (\<lambda>i2.
      bindS (torch_add i1 i2) (\<lambda>i3.
      bindS (get_param self ''Wci'') (\<lambda>Wci.
      bindS (torch_mul Wci C) (\<lambda>i4.
      bindS (torch_add i3 i4) (\<lambda>i5.
      bindS (get_param self ''bi'') (\<lambda>bi.
      bindS (torch_add i5 bi) K))))))) st = K r (st @ vs)"
    and p1: "is4 (st @ vs) r CPU N ?ch ?h ?w g"
    using gate_sum_run[OF kxi khi wci bi odd pos X H has_is4[OF C], where ?'a = "ref \<times> ref"]
    by blast
  have h: "has (st @ vs) r CPU [N, ?ch, ?h, ?w]" using p1 by (simp add: is4_def)
  have hs: "hard_sigmoid e r (st @ vs) =
      Inl (if cuda_available e then DeviceMismatch else CudaUnavailable)"
    by (rule hard_sigmoid_cpu[OF h]) simp
  show ?thesis
    by (simp only: forward_def Let_def fst_conv snd_conv s1
        bindS_Inl[where m = "hard_sigmoid e r", OF hs])
qed

text \<open>
  Claim C8 fails on the code. The cell as the constructor builds it by default, on the CPU,
  with a frame and a state of the configured shapes on the CPU: \<^verbatim>\<open>forward\<close> raises, in
  \<^verbatim>\<open>hard_sigmoid\<close>. On a machine with a CUDA device the bounds are moved there and
  \<^verbatim>\<open>torch.min\<close> meets operands on two devices; on a machine without one \<^verbatim>\<open>.cuda()\<close>
  raises.
\<close>

theorem forward_on_cpu_raises:
  "ConvLSTMCell_init (ex_env_cpu True) (ex_init 1) (1, 1) 1 1 (1, 1) ''mul'' False True [] =
     Inr (ex_cell ''mul'', ex_params CPU 1) \<and>
   forward (ex_env_cpu True) (ex_cell ''mul'') 15 (16, 17) (ex_store CPU 1 1 2) = Inl DeviceMismatch \<and>
   forward (ex_env_cpu False) (ex_cell ''mul'') 15 (16, 17) (ex_store CPU 1 1 2) = Inl CudaUnavailable"
proof (intro conjI)
  show "ConvLSTMCell_init (ex_env_cpu True) (ex_init 1) (1, 1) 1 1 (1, 1) ''mul'' False True [] =
     Inr (ex_cell ''mul'', ex_params CPU 1)"
    unfolding ex_env_cpu_def by (rule ex_constructed)
  have ok: "cell_ok (ex_store CPU 1 1 2) CPU (ex_cell ''mul'')" by (rule ex_cell_ok)
  have io: "state_ok (ex_store CPU 1 1 2) CPU (ex_cell ''mul'') 1 15 16 17" by (rule ex_state_ok)
  show "forward (ex_env_cpu True) (ex_cell ''mul'') 15 (16, 17) (ex_store CPU 1 1 2) = Inl DeviceMismatch"
    using forward_cpu_fails[OF ok ex_valid io, of "ex_env_cpu True"] by (simp add: ex_env_cpu_def)
  show "forward (ex_env_cpu False) (ex_cell ''mul'') 15 (16, 17) (ex_store CPU 1 1 2) = Inl CudaUnavailable"
    using forward_cpu_fails[OF ok ex_valid io, of "ex_env_cpu False"] by (simp add: ex_env_cpu_def)
qed

end
